theory Spec2Isabelle
  imports Main "HOL-Library.AList"
begin

section \<open>Python values shared by the three services\<close>

text \<open>
  The repository holds three FastAPI services: the shard node (\<open>shard/app/main.py\<close>),
  the coordinator (\<open>coordinator/app/main.py\<close>) and the earlier single-process
  application (\<open>app/main.py\<close>). Every handler is modelled as a function from the
  module's global dictionaries to a result and the updated dictionaries. A raised
  \<open>HTTPException\<close> is the \<open>Inl\<close> branch of the result.

  A sort key is an \<open>Optional[str]\<close>; the source tests it by truthiness
  (\<open>... if sort_key else ...\<close>), which is false for \<open>None\<close> and for the empty string,
  and renders it with an f-string.
\<close>

definition truthy :: "string option \<Rightarrow> bool" where
  "truthy s = (case s of None \<Rightarrow> False | Some t \<Rightarrow> t \<noteq> [])"

definition fstr :: "string option \<Rightarrow> string" where
  "fstr s = (case s of None \<Rightarrow> ''None'' | Some t \<Rightarrow> t)"

text \<open>
  The composition rule in the words of the specification: with a sort key present the
  composite key is the key, the separator and the sort key; otherwise the key alone.
  A sort key counts as present when it is a non-empty string. No handler below calls
  this function: each one spells the conditional out, as the source does.
\<close>

definition compose :: "string \<Rightarrow> string option \<Rightarrow> string" where
  "compose k sk = (case sk of None \<Rightarrow> k | Some s \<Rightarrow> (if s = [] then k else k @ '':'' @ s))"

section \<open>The shard node\<close>

text \<open>
  \<open>STORAGE\<close> maps a table name to that table's dictionary from composite key to value.
  The value is a JSON object that no handler inspects, so its type is a parameter.
  The three services reuse handler names, so the shard's handlers \<open>create\<close>, \<open>read\<close>,
  \<open>exists\<close>, \<open>update\<close> and \<open>delete\<close> carry the prefix \<open>shard_\<close> and the application's
  the prefix \<open>app_\<close>; the coordinator's keep their names.
\<close>

type_synonym 'v storage = "string \<rightharpoonup> (string \<rightharpoonup> 'v)"

record 'v ShardKeyValue =
  skv_table :: string
  skv_key :: string
  skv_sort_key :: "string option"
  skv_value :: 'v

text \<open>
  What a handler hands to FastAPI: an \<open>HTTPException\<close> with status and detail, or the
  framework's own rejection of a body that does not fit the model (status 422).
\<close>

datatype http_error = HTTPException nat string | RequestValidationError

datatype 'v shard_body =
    Created string string
  | ReadOk string 'v
  | Exists bool
  | Updated string string 'v
  | Deleted string

type_synonym 'v shard_resp = "http_error + 'v shard_body"

definition shard_create :: "'v storage \<Rightarrow> 'v ShardKeyValue \<Rightarrow> 'v shard_resp \<times> 'v storage" where
  "shard_create STORAGE data =
     (let tbl = (case STORAGE (skv_table data) of None \<Rightarrow> Map.empty | Some m \<Rightarrow> m);
          composite_key = (if truthy (skv_sort_key data)
                           then skv_key data @ '':'' @ fstr (skv_sort_key data)
                           else skv_key data)
      in (Inr (Created (skv_table data) composite_key),
          STORAGE(skv_table data \<mapsto> tbl(composite_key \<mapsto> skv_value data))))"

definition shard_read :: "'v storage \<Rightarrow> string \<Rightarrow> string \<Rightarrow> string option \<Rightarrow> 'v shard_resp \<times> 'v storage" where
  "shard_read STORAGE table key sort_key' =
     (case STORAGE table of
        None \<Rightarrow> (Inl (HTTPException 404 ''Table not found''), STORAGE)
      | Some tbl \<Rightarrow>
          (let composite_key = (if truthy sort_key' then key @ '':'' @ fstr sort_key' else key)
           in case tbl composite_key of
                None \<Rightarrow> (Inl (HTTPException 404 ''Key not found''), STORAGE)
              | Some v \<Rightarrow> (Inr (ReadOk composite_key v), STORAGE)))"

definition shard_exists :: "'v storage \<Rightarrow> string \<Rightarrow> string \<Rightarrow> string option \<Rightarrow> 'v shard_resp \<times> 'v storage" where
  "shard_exists STORAGE table key sort_key' =
     (case STORAGE table of
        None \<Rightarrow> (Inr (Exists False), STORAGE)
      | Some tbl \<Rightarrow>
          (let composite_key = (if truthy sort_key' then key @ '':'' @ fstr sort_key' else key)
           in (Inr (Exists (tbl composite_key \<noteq> None)), STORAGE)))"

definition shard_update :: "'v storage \<Rightarrow> 'v ShardKeyValue \<Rightarrow> 'v shard_resp \<times> 'v storage" where
  "shard_update STORAGE data =
     (case STORAGE (skv_table data) of
        None \<Rightarrow> (Inl (HTTPException 404 ''Table not found''), STORAGE)
      | Some tbl \<Rightarrow>
          (let composite_key = (if truthy (skv_sort_key data)
                                then skv_key data @ '':'' @ fstr (skv_sort_key data)
                                else skv_key data)
           in if tbl composite_key = None
              then (Inl (HTTPException 404 ''Key not found for update''), STORAGE)
              else (Inr (Updated (skv_table data) composite_key (skv_value data)),
                    STORAGE(skv_table data \<mapsto> tbl(composite_key \<mapsto> skv_value data)))))"

definition shard_delete :: "'v storage \<Rightarrow> string \<Rightarrow> string \<Rightarrow> string option \<Rightarrow> 'v shard_resp \<times> 'v storage" where
  "shard_delete STORAGE table key sort_key' =
     (case STORAGE table of
        None \<Rightarrow> (Inl (HTTPException 404 ''Table not found''), STORAGE)
      | Some tbl \<Rightarrow>
          (let composite_key = (if truthy sort_key' then key @ '':'' @ fstr sort_key' else key)
           in if tbl composite_key = None
              then (Inl (HTTPException 404 ''Key not found''), STORAGE)
              else (Inr (Deleted composite_key), STORAGE(table \<mapsto> tbl(composite_key := None)))))"

text \<open>The status line FastAPI sends for a handler's result.\<close>

definition status_code :: "'v shard_resp \<Rightarrow> nat" where
  "status_code resp =
     (case resp of
        Inr _ \<Rightarrow> 200
      | Inl (HTTPException s _) \<Rightarrow> s
      | Inl RequestValidationError \<Rightarrow> 422)"

section \<open>The hash ring\<close>

text \<open>
  Modelled from the spec: the module \<open>consistent_hash\<close> (class \<open>ConsistentHashRing\<close>)
  that the coordinator imports is not among the source files. The ring is the
  ordered collection of (position, shard identity) pairs of the specification, sorted
  by position with unique positions; an identity is present in the ring when it owns
  one of the pairs. \<open>add_node\<close> places one virtual node per replica index at the hash
  of the identity followed by the index, rejects a virtual node whose position is
  taken, and fails with \<open>DuplicateShardError\<close> for an identity already present;
  \<open>get_node\<close> returns the owner of the first position at or after the key's hash,
  wrapping to the smallest position, and \<open>None\<close> for the empty ring. The hash function
  and the replication factor are fixed at construction and are parameters here.
\<close>

record HashRing =
  hash_fn :: "string \<Rightarrow> nat"
  replicas :: nat
  ring :: "(nat \<times> string) list"

text \<open>
  The exceptions that no handler of the coordinator catches: a missing dictionary key,
  the ring's refusal of an identity, a response body that is not JSON, and whatever the
  HTTP client library raises (named by the class of the exception).
\<close>

datatype py_exception = KeyError | DuplicateShardError | JSONDecodeError | ClientError string

text \<open>
  Modelled from the spec: the decimal rendering of a replica index, which \<open>add_node\<close>
  appends to the shard identity before hashing.
\<close>

definition digit_char :: "nat \<Rightarrow> char" where
  "digit_char d = ''0123456789'' ! (d mod 10)"

fun str_nat :: "nat \<Rightarrow> string" where
  "str_nat n =
     (if n < 10 then [digit_char n]
      else str_nat (n div 10) @ [digit_char (n mod 10)])"

declare str_nat.simps [simp del]

text \<open>
  Modelled from the spec: placing one virtual node in the sorted ring; a virtual node
  whose position is taken is rejected.
\<close>

fun insert_vnode :: "nat \<times> string \<Rightarrow> (nat \<times> string) list \<Rightarrow> (nat \<times> string) list" where
  "insert_vnode v [] = [v]"
| "insert_vnode v (w # ws) =
     (if fst v < fst w then v # w # ws
      else if fst v = fst w then w # ws
      else w # insert_vnode v ws)"

text \<open>
  Modelled from the spec: the virtual nodes of one shard, one per replica index, at the
  hash of the identity followed by the index.
\<close>

fun add_vnodes :: "(string \<Rightarrow> nat) \<Rightarrow> string \<Rightarrow> nat list \<Rightarrow> (nat \<times> string) list \<Rightarrow> (nat \<times> string) list" where
  "add_vnodes h ident [] vs = vs"
| "add_vnodes h ident (i # is) vs = add_vnodes h ident is (insert_vnode (h (ident @ str_nat i), ident) vs)"

text \<open>Modelled from the spec: the ring as constructed, without virtual nodes.\<close>

definition new_ring :: "(string \<Rightarrow> nat) \<Rightarrow> nat \<Rightarrow> HashRing" where
  "new_ring h r = \<lparr>hash_fn = h, replicas = r, ring = []\<rparr>"

text \<open>
  Modelled from the spec: \<open>add_node\<close> fails with \<open>DuplicateShardError\<close> when the identity
  is present in the ring, and otherwise inserts its virtual nodes.
\<close>

definition add_node :: "HashRing \<Rightarrow> string \<Rightarrow> py_exception + HashRing" where
  "add_node r ident =
     (if ident \<in> set (map snd (ring r)) then Inl DuplicateShardError
      else Inr (r\<lparr>ring := add_vnodes (hash_fn r) ident [0..<replicas r] (ring r)\<rparr>))"

text \<open>
  Modelled from the spec: \<open>get_node\<close> returns \<open>None\<close> for the empty ring, and otherwise
  the owner of the first position at or after the hash of the key, or of the smallest
  position when the hash is beyond the last one.
\<close>

definition get_node :: "HashRing \<Rightarrow> string \<Rightarrow> string option" where
  "get_node r key =
     (case ring r of
        [] \<Rightarrow> None
      | v # vs \<Rightarrow>
          (case find (\<lambda>w. hash_fn r key \<le> fst w) (v # vs) of
             Some w \<Rightarrow> Some (snd w)
           | None \<Rightarrow> Some (snd v)))"

section \<open>The coordinator\<close>

record ShardRegistration =
  sr_name :: string
  sr_url :: string

record TableDef =
  td_name :: string
  td_partition_key_name :: string
  td_sort_key_name :: "string option"

record 'v KeyValue =
  kv_table :: string
  kv_key :: string
  kv_sort_key :: "string option"
  kv_value :: "'v option"

text \<open>
  The module's globals. \<open>SHARDS\<close> and \<open>TABLES\<close> are dictionaries whose keys the
  listing endpoints enumerate, so they are association lists in insertion order.
\<close>

record coordinator =
  SHARDS :: "(string \<times> string) list"
  RING :: HashRing
  TABLES :: "(string \<times> TableDef) list"

definition new_coordinator :: "(string \<Rightarrow> nat) \<Rightarrow> nat \<Rightarrow> coordinator" where
  "new_coordinator h r = \<lparr>SHARDS = [], RING = new_ring h r, TABLES = []\<rparr>"

subsection \<open>Requests to a shard and their responses\<close>

text \<open>
  The coordinator reaches a shard through an HTTP client library (\<open>httpx\<close>), which is
  not part of the repository. What the coordinator hands to the client is modelled as
  it is written in the source: the method, the URL as the f-string builds it, and
  either the JSON payload (\<open>data.dict()\<close> with the added \<open>composite_key\<close>) or the
  value of the \<open>sort_key\<close> query parameter.
\<close>

record 'v Payload =
  pl_table :: string
  pl_key :: string
  pl_sort_key :: "string option"
  pl_value :: "'v option"
  pl_composite_key :: string

definition payload_of :: "'v KeyValue \<Rightarrow> string \<Rightarrow> 'v Payload" where
  "payload_of data composite_key =
     \<lparr>pl_table = kv_table data, pl_key = kv_key data, pl_sort_key = kv_sort_key data,
      pl_value = kv_value data, pl_composite_key = composite_key\<rparr>"

datatype 'v sent =
    POST string "'v Payload"
  | PUT string "'v Payload"
  | GET string "string option"
  | DELETE string "string option"

text \<open>
  What the coordinator reads of a response: \<open>status_code\<close>, the body as text
  (\<open>resp.text\<close>), and the body parsed as JSON (\<open>resp.json()\<close>), which raises when the
  body is not JSON. A JSON body is one of the shard's result objects, the
  \<open>{"detail": ...}\<close> object of an \<open>HTTPException\<close>, or the error list of a rejected
  request body.
\<close>

datatype 'v json_body = Body "'v shard_body" | Detail string | ValidationErrors

datatype 'v body = Json "'v json_body" | NotJson string

record 'v response =
  resp_status :: nat
  resp_body :: "'v body"

definition resp_json :: "'v response \<Rightarrow> py_exception + 'v json_body" where
  "resp_json resp = (case resp_body resp of Json j \<Rightarrow> Inr j | NotJson _ \<Rightarrow> Inl JSONDecodeError)"

text \<open>
  The client library and everything behind it (the network, the shard processes) are
  a parameter of the routed operations: a function that, given a request and the state
  of the world behind the client, raises or returns a response, and leaves the world
  in a new state. \<open>calls\<close> records every request the coordinator hands to the client,
  in order.
\<close>

type_synonym ('v, 'w) client = "'v sent \<Rightarrow> 'w \<Rightarrow> (py_exception + 'v response) \<times> 'w"

record ('v, 'w) network =
  world :: 'w
  calls :: "'v sent list"

definition remote_call ::
  "('v, 'w) client \<Rightarrow> ('v, 'w) network \<Rightarrow> 'v sent \<Rightarrow> (py_exception + 'v response) \<times> ('v, 'w) network" where
  "remote_call client net req =
     (case client req (world net) of
        (r, w') \<Rightarrow> (r, \<lparr>world = w', calls = calls net @ [req]\<rparr>))"

text \<open>
  On the shard's side the framework fits the JSON payload to the shard's \<open>KeyValue\<close>
  model before the handler runs. That model requires \<open>value\<close>, the coordinator's
  allows it to be absent: a payload without a value is rejected with status 422. The
  \<open>composite_key\<close> field of the payload is not a field of the shard's model and is
  dropped. A raised \<open>HTTPException\<close> is answered with its status and the object
  \<open>{"detail": ...}\<close>.
\<close>

definition parse_body :: "'v Payload \<Rightarrow> http_error + 'v ShardKeyValue" where
  "parse_body payload =
     (case pl_value payload of
        None \<Rightarrow> Inl RequestValidationError
      | Some v \<Rightarrow> Inr \<lparr>skv_table = pl_table payload, skv_key = pl_key payload,
                        skv_sort_key = pl_sort_key payload, skv_value = v\<rparr>)"

definition error_response :: "http_error \<Rightarrow> 'v response" where
  "error_response e =
     (case e of
        HTTPException s d \<Rightarrow> \<lparr>resp_status = s, resp_body = Json (Detail d)\<rparr>
      | RequestValidationError \<Rightarrow> \<lparr>resp_status = 422, resp_body = Json ValidationErrors\<rparr>)"

text \<open>
  The path of a URL, by the regular expression of RFC 3986 (appendix B): after the
  scheme and the authority, up to the first \<open>?\<close> or \<open>#\<close>. What follows a \<open>?\<close> is
  the query, not part of the path that a server matches against its routes.
\<close>

definition url_path :: "string \<Rightarrow> string" where
  "url_path url =
     (let scheme = takeWhile (\<lambda>c. c \<notin> set '':/?#'') url;
          r1 = (if scheme \<noteq> [] \<and> take 1 (drop (length scheme) url) = '':''
                then drop (length scheme + 1) url else url);
          r2 = (if take 2 r1 = ''//'' then dropWhile (\<lambda>c. c \<notin> set ''/?#'') (drop 2 r1) else r1)
      in takeWhile (\<lambda>c. c \<notin> set ''?#'') r2)"

subsection \<open>Registration and resolution\<close>

text \<open>
  The coordinator raises \<open>HTTPException\<close> with a literal message, or with the text of
  a shard's response as its detail. An exception no handler catches leaves through
  \<open>Unhandled\<close>.
\<close>

datatype 'v detail = Msg string | RespText "'v body"

datatype 'v coord_error = CoordHTTPException nat "'v detail" | Unhandled py_exception

datatype coord_body =
    TableRegistered string
  | TablesList "string list"
  | ShardRegistered string string
  | ShardsList "(string \<times> string) list"

record 'v routed =
  target_shard :: string
  response :: "'v json_body"

definition register_table :: "coordinator \<Rightarrow> TableDef \<Rightarrow> ('v coord_error + coord_body) \<times> coordinator" where
  "register_table c defn =
     (if td_name defn \<in> set (map fst (TABLES c))
      then (Inl (CoordHTTPException 400 (Msg ''Table already exists'')), c)
      else (Inr (TableRegistered (td_name defn)),
            c\<lparr>TABLES := AList.update (td_name defn) defn (TABLES c)\<rparr>))"

definition list_tables :: "coordinator \<Rightarrow> ('v coord_error + coord_body) \<times> coordinator" where
  "list_tables c = (Inr (TablesList (map fst (TABLES c))), c)"

definition register_shard :: "coordinator \<Rightarrow> ShardRegistration \<Rightarrow> ('v coord_error + coord_body) \<times> coordinator" where
  "register_shard c data =
     (if sr_name data \<in> set (map fst (SHARDS c))
      then (Inl (CoordHTTPException 400 (Msg ''Shard already exists'')), c)
      else (let c1 = c\<lparr>SHARDS := AList.update (sr_name data) (sr_url data) (SHARDS c)\<rparr>
            in case add_node (RING c1) (sr_name data) of
                 Inl exc \<Rightarrow> (Inl (Unhandled exc), c1)
               | Inr r \<Rightarrow> (Inr (ShardRegistered (sr_name data) (sr_url data)), c1\<lparr>RING := r\<rparr>)))"

definition list_shards :: "coordinator \<Rightarrow> ('v coord_error + coord_body) \<times> coordinator" where
  "list_shards c = (Inr (ShardsList (SHARDS c)), c)"

definition get_shard_for_key :: "coordinator \<Rightarrow> string \<Rightarrow> 'v coord_error + string \<times> string" where
  "get_shard_for_key c key =
     (case get_node (RING c) key of
        None \<Rightarrow> Inl (CoordHTTPException 500 (Msg ''No shards available''))
      | Some shard_name \<Rightarrow>
          (case map_of (SHARDS c) shard_name of
             None \<Rightarrow> Inl (Unhandled KeyError)
           | Some shard_url \<Rightarrow> Inr (shard_name, shard_url)))"

subsection \<open>The routed operations\<close>

type_synonym ('v, 'w) crud_result = "('v coord_error + 'v routed) \<times> ('v, 'w) network"

definition create_record ::
  "('v, 'w) client \<Rightarrow> coordinator \<Rightarrow> ('v, 'w) network \<Rightarrow> 'v KeyValue \<Rightarrow> ('v, 'w) crud_result" where
  "create_record client c net data =
     (let composite_key = (if truthy (kv_sort_key data)
                           then kv_key data @ '':'' @ fstr (kv_sort_key data)
                           else kv_key data)
      in case get_shard_for_key c composite_key of
           Inl e \<Rightarrow> (Inl e, net)
         | Inr (shard_name, shard_url) \<Rightarrow>
             (case remote_call client net (POST (shard_url @ ''/create'') (payload_of data composite_key)) of
                (Inl exc, net') \<Rightarrow> (Inl (Unhandled exc), net')
              | (Inr resp, net') \<Rightarrow>
                  (case resp_json resp of
                     Inl exc \<Rightarrow> (Inl (Unhandled exc), net')
                   | Inr j \<Rightarrow> (Inr \<lparr>target_shard = shard_name, response = j\<rparr>, net'))))"

definition read_record ::
  "('v, 'w) client \<Rightarrow> coordinator \<Rightarrow> ('v, 'w) network \<Rightarrow> string \<Rightarrow> string \<Rightarrow> string option
     \<Rightarrow> ('v, 'w) crud_result" where
  "read_record client c net table key sort_key' =
     (let composite_key = (if truthy sort_key' then key @ '':'' @ fstr sort_key' else key)
      in case get_shard_for_key c composite_key of
           Inl e \<Rightarrow> (Inl e, net)
         | Inr (shard_name, shard_url) \<Rightarrow>
             (case remote_call client net (GET (shard_url @ ''/read/'' @ table @ ''/'' @ key) sort_key') of
                (Inl exc, net') \<Rightarrow> (Inl (Unhandled exc), net')
              | (Inr resp, net') \<Rightarrow>
                  (if resp_status resp \<noteq> 200
                   then (Inl (CoordHTTPException (resp_status resp) (RespText (resp_body resp))), net')
                   else (case resp_json resp of
                           Inl exc \<Rightarrow> (Inl (Unhandled exc), net')
                         | Inr j \<Rightarrow> (Inr \<lparr>target_shard = shard_name, response = j\<rparr>, net')))))"

definition exists_record ::
  "('v, 'w) client \<Rightarrow> coordinator \<Rightarrow> ('v, 'w) network \<Rightarrow> string \<Rightarrow> string \<Rightarrow> string option
     \<Rightarrow> ('v, 'w) crud_result" where
  "exists_record client c net table key sort_key' =
     (let composite_key = (if truthy sort_key' then key @ '':'' @ fstr sort_key' else key)
      in case get_shard_for_key c composite_key of
           Inl e \<Rightarrow> (Inl e, net)
         | Inr (shard_name, shard_url) \<Rightarrow>
             (case remote_call client net (GET (shard_url @ ''/exists/'' @ table @ ''/'' @ key) sort_key') of
                (Inl exc, net') \<Rightarrow> (Inl (Unhandled exc), net')
              | (Inr resp, net') \<Rightarrow>
                  (case resp_json resp of
                     Inl exc \<Rightarrow> (Inl (Unhandled exc), net')
                   | Inr j \<Rightarrow> (Inr \<lparr>target_shard = shard_name, response = j\<rparr>, net'))))"

definition update_record ::
  "('v, 'w) client \<Rightarrow> coordinator \<Rightarrow> ('v, 'w) network \<Rightarrow> 'v KeyValue \<Rightarrow> ('v, 'w) crud_result" where
  "update_record client c net data =
     (let composite_key = (if truthy (kv_sort_key data)
                           then kv_key data @ '':'' @ fstr (kv_sort_key data)
                           else kv_key data)
      in case get_shard_for_key c composite_key of
           Inl e \<Rightarrow> (Inl e, net)
         | Inr (shard_name, shard_url) \<Rightarrow>
             (case remote_call client net (PUT (shard_url @ ''/update'') (payload_of data composite_key)) of
                (Inl exc, net') \<Rightarrow> (Inl (Unhandled exc), net')
              | (Inr resp, net') \<Rightarrow>
                  (if resp_status resp \<noteq> 200
                   then (Inl (CoordHTTPException (resp_status resp) (RespText (resp_body resp))), net')
                   else (case resp_json resp of
                           Inl exc \<Rightarrow> (Inl (Unhandled exc), net')
                         | Inr j \<Rightarrow> (Inr \<lparr>target_shard = shard_name, response = j\<rparr>, net')))))"

definition delete_record ::
  "('v, 'w) client \<Rightarrow> coordinator \<Rightarrow> ('v, 'w) network \<Rightarrow> string \<Rightarrow> string \<Rightarrow> string option
     \<Rightarrow> ('v, 'w) crud_result" where
  "delete_record client c net table key sort_key' =
     (let composite_key = (if truthy sort_key' then key @ '':'' @ fstr sort_key' else key)
      in case get_shard_for_key c composite_key of
           Inl e \<Rightarrow> (Inl e, net)
         | Inr (shard_name, shard_url) \<Rightarrow>
             (case remote_call client net (DELETE (shard_url @ ''/delete/'' @ table @ ''/'' @ key) sort_key') of
                (Inl exc, net') \<Rightarrow> (Inl (Unhandled exc), net')
              | (Inr resp, net') \<Rightarrow>
                  (if resp_status resp \<notin> {200, 204}
                   then (Inl (CoordHTTPException (resp_status resp) (RespText (resp_body resp))), net')
                   else (case resp_json resp of
                           Inl exc \<Rightarrow> (Inl (Unhandled exc), net')
                         | Inr j \<Rightarrow> (Inr \<lparr>target_shard = shard_name, response = j\<rparr>, net')))))"

subsection \<open>Sequences of requests\<close>

datatype 'v request =
    RegisterTable TableDef
  | ListTables
  | RegisterShard ShardRegistration
  | ListShards
  | Create "'v KeyValue"
  | Read string string "string option"
  | ExistsReq string string "string option"
  | Update "'v KeyValue"
  | Delete string string "string option"

text \<open>The state after the coordinator has served one request, and a list of them.\<close>

fun serve ::
  "('v, 'w) client \<Rightarrow> 'v request \<Rightarrow> coordinator \<times> ('v, 'w) network \<Rightarrow> coordinator \<times> ('v, 'w) network" where
  "serve client (RegisterTable defn) (c, net) =
     (snd (register_table c defn :: ('v coord_error + coord_body) \<times> coordinator), net)"
| "serve client ListTables (c, net) =
     (snd (list_tables c :: ('v coord_error + coord_body) \<times> coordinator), net)"
| "serve client (RegisterShard data) (c, net) =
     (snd (register_shard c data :: ('v coord_error + coord_body) \<times> coordinator), net)"
| "serve client ListShards (c, net) =
     (snd (list_shards c :: ('v coord_error + coord_body) \<times> coordinator), net)"
| "serve client (Create data) (c, net) = (c, snd (create_record client c net data))"
| "serve client (Read table key sort_key') (c, net) = (c, snd (read_record client c net table key sort_key'))"
| "serve client (ExistsReq table key sort_key') (c, net) = (c, snd (exists_record client c net table key sort_key'))"
| "serve client (Update data) (c, net) = (c, snd (update_record client c net data))"
| "serve client (Delete table key sort_key') (c, net) = (c, snd (delete_record client c net table key sort_key'))"

fun serve_all ::
  "('v, 'w) client \<Rightarrow> 'v request list \<Rightarrow> coordinator \<times> ('v, 'w) network \<Rightarrow> coordinator \<times> ('v, 'w) network" where
  "serve_all client [] s = s"
| "serve_all client (r # rs) s = serve_all client rs (serve client r s)"

fun is_register_shard :: "'v request \<Rightarrow> bool" where
  "is_register_shard (RegisterShard _) = True"
| "is_register_shard _ = False"

section \<open>The single-process application\<close>

record TableDefinition =
  tdn_name :: string
  tdn_primary_key :: string
  tdn_sort_key :: "string option"

record 'v Record =
  rec_key :: string
  rec_sort_key :: "string option"
  rec_value :: 'v

datatype 'v app_body =
    AppTableRegistered string
  | RecordCreated string
  | RecordRead string 'v
  | RecordDeleted string
  | RecordUpdated string

type_synonym 'v app_result = "(http_error + 'v app_body) \<times> 'v storage"

definition app_register_table :: "'v storage \<Rightarrow> TableDefinition \<Rightarrow> 'v app_result" where
  "app_register_table T definition' =
     (if T (tdn_name definition') \<noteq> None
      then (Inl (HTTPException 400 ''Table already exists''), T)
      else (Inr (AppTableRegistered (tdn_name definition')), T(tdn_name definition' \<mapsto> Map.empty)))"

definition app_create_record :: "'v storage \<Rightarrow> string \<Rightarrow> 'v Record \<Rightarrow> 'v app_result" where
  "app_create_record T table_name record' =
     (case T table_name of
        None \<Rightarrow> (Inl (HTTPException 404 ''Table not found''), T)
      | Some table \<Rightarrow>
          (let composite_key = (if truthy (rec_sort_key record')
                                then rec_key record' @ '':'' @ fstr (rec_sort_key record')
                                else rec_key record')
           in if table composite_key \<noteq> None
              then (Inl (HTTPException 400 ''Record already exists''), T)
              else (Inr (RecordCreated composite_key),
                    T(table_name \<mapsto> table(composite_key \<mapsto> rec_value record')))))"

definition app_read_record :: "'v storage \<Rightarrow> string \<Rightarrow> string \<Rightarrow> 'v app_result" where
  "app_read_record T table_name key =
     (case T table_name of
        None \<Rightarrow> (Inl (HTTPException 404 ''Table not found''), T)
      | Some table \<Rightarrow>
          (case table key of
             None \<Rightarrow> (Inl (HTTPException 404 ''Record not found''), T)
           | Some v \<Rightarrow> (Inr (RecordRead key v), T)))"

definition app_delete_record :: "'v storage \<Rightarrow> string \<Rightarrow> string \<Rightarrow> 'v app_result" where
  "app_delete_record T table_name key =
     (case T table_name of
        None \<Rightarrow> (Inl (HTTPException 404 ''Table not found''), T)
      | Some table \<Rightarrow>
          (if table key = None
           then (Inl (HTTPException 404 ''Record not found''), T)
           else (Inr (RecordDeleted key), T(table_name \<mapsto> table(key := None)))))"

definition app_update_record :: "'v storage \<Rightarrow> string \<Rightarrow> string \<Rightarrow> 'v Record \<Rightarrow> 'v app_result" where
  "app_update_record T table_name key record' =
     (case T table_name of
        None \<Rightarrow> (Inl (HTTPException 404 ''Table not found''), T)
      | Some table \<Rightarrow>
          (if table key = None
           then (Inl (HTTPException 404 ''Record not found''), T)
           else (Inr (RecordUpdated key), T(table_name \<mapsto> table(key \<mapsto> rec_value record')))))"


section \<open>Notions used to state the properties\<close>

text \<open>
  The status a client sees for a coordinator error (an uncaught exception is answered
  with 500 by the framework), and the HTTP status classes.
\<close>

definition coord_status :: "'v coord_error \<Rightarrow> nat" where
  "coord_status e = (case e of CoordHTTPException s _ \<Rightarrow> s | Unhandled _ \<Rightarrow> 500)"

definition is_client_error :: "nat \<Rightarrow> bool" where
  "is_client_error s = (400 \<le> s \<and> s < 500)"

definition is_server_error :: "nat \<Rightarrow> bool" where
  "is_server_error s = (500 \<le> s \<and> s < 600)"

text \<open>
  A routed operation with result \<open>res\<close> used \<open>ck\<close> as its routing key and called the
  client once with the request \<open>req\<close>: if no shard is resolved for \<open>ck\<close> the operation
  fails with the resolution error, calls nothing and leaves the world alone; otherwise
  the one request it hands to the client is \<open>req\<close> at the resolved shard's address,
  the world is as that one call left it, and a successful result names the resolved
  shard.
\<close>

definition one_call ::
  "('v, 'w) client \<Rightarrow> coordinator \<Rightarrow> ('v, 'w) network \<Rightarrow> string \<Rightarrow> (string \<Rightarrow> 'v sent)
     \<Rightarrow> ('v, 'w) crud_result \<Rightarrow> bool" where
  "one_call client c net ck req res =
     (case get_shard_for_key c ck of
        Inl e \<Rightarrow> res = (Inl e, net)
      | Inr (n, u) \<Rightarrow>
          calls (snd res) = calls net @ [req u]
          \<and> world (snd res) = snd (client (req u) (world net))
          \<and> (case fst res of Inl _ \<Rightarrow> True | Inr r \<Rightarrow> target_shard r = n))"

text \<open>
  The result \<open>res\<close> of an operation routed to shard \<open>n\<close> surfaces the outcome of its
  client call, where \<open>ok\<close> is the set of statuses the operation accepts: an exception
  raised by the client is not caught; a response with a status outside \<open>ok\<close> is
  raised again as an \<open>HTTPException\<close> with that status and the response text as
  detail; otherwise the parsed body is returned with the shard's name.
\<close>

definition surfaces ::
  "nat set \<Rightarrow> py_exception + 'v response \<Rightarrow> string \<Rightarrow> 'v coord_error + 'v routed \<Rightarrow> bool" where
  "surfaces ok outcome n res =
     (case outcome of
        Inl exc \<Rightarrow> res = Inl (Unhandled exc)
      | Inr resp \<Rightarrow>
          (if resp_status resp \<notin> ok
           then res = Inl (CoordHTTPException (resp_status resp) (RespText (resp_body resp)))
           else (case resp_json resp of
                   Inl exc \<Rightarrow> res = Inl (Unhandled exc)
                 | Inr j \<Rightarrow> res = Inr \<lparr>target_shard = n, response = j\<rparr>)))"




text \<open>
  Two clients for concrete evaluations: one that answers every request with a given
  response, and one whose every call fails to connect. Neither touches the world.
\<close>

definition answering :: "'v response \<Rightarrow> ('v, 'w) client" where
  "answering resp = (\<lambda>req w. (Inr resp, w))"

definition refusing :: "('v, 'w) client" where
  "refusing = (\<lambda>req w. (Inl (ClientError ''ConnectError''), w))"

definition json_response :: "'v shard_body \<Rightarrow> 'v response" where
  "json_response b = \<lparr>resp_status = 200, resp_body = Json (Body b)\<rparr>"

text \<open>
  A small deployment for concrete evaluations: a ring with two replicas per shard over
  a hash that adds the character codes modulo 64, and one registered shard \<open>s1\<close>;
  without a registered table, and with the table \<open>orders\<close> registered.
\<close>

definition demo_hash :: "string \<Rightarrow> nat" where
  "demo_hash s = sum_list (map of_char s) mod 64"

definition demo_coordinator :: coordinator where
  "demo_coordinator =
     \<lparr>SHARDS = [(''s1'', ''http://s1:8000'')],
      RING = \<lparr>hash_fn = demo_hash, replicas = 2, ring = [(20, ''s1''), (21, ''s1'')]\<rparr>,
      TABLES = []\<rparr>"

definition demo_orders :: TableDef where
  "demo_orders = \<lparr>td_name = ''orders'', td_partition_key_name = ''user'', td_sort_key_name = Some ''order''\<rparr>"

definition demo_registered :: coordinator where
  "demo_registered = demo_coordinator\<lparr>TABLES := [(''orders'', demo_orders)]\<rparr>"

definition demo_network :: "(nat, unit) network" where
  "demo_network = \<lparr>world = (), calls = []\<rparr>"

definition demo_order :: "nat KeyValue" where
  "demo_order = \<lparr>kv_table = ''orders'', kv_key = ''u1'', kv_sort_key = Some ''o5'', kv_value = Some 10\<rparr>"

definition demo_order_no_value :: "nat KeyValue" where
  "demo_order_no_value = \<lparr>kv_table = ''orders'', kv_key = ''u1'', kv_sort_key = Some ''o5'', kv_value = None\<rparr>"

definition demo_special :: "nat KeyValue" where
  "demo_special = \<lparr>kv_table = ''orders'', kv_key = ''a?b'', kv_sort_key = Some ''o5'', kv_value = Some 10\<rparr>"

section \<open>Properties\<close>

subsection \<open>The composite key\<close>

text \<open>The conditional every handler writes out computes the rule of the specification.\<close>

lemma composite_key_compose:
  "(if truthy sk then k @ '':'' @ fstr sk else k) = compose k sk"
  by (simp add: truthy_def fstr_def compose_def split: option.splits)

lemma compose_absent: "sk = None \<or> sk = Some [] \<Longrightarrow> compose k sk = k"
  by (auto simp: compose_def)

text \<open>The shard handlers, with the composite key named by the rule.\<close>

lemma shard_create_compose:
  "shard_create STORAGE data =
     (Inr (Created (skv_table data) (compose (skv_key data) (skv_sort_key data))),
      STORAGE(skv_table data \<mapsto>
        (case STORAGE (skv_table data) of None \<Rightarrow> Map.empty | Some m \<Rightarrow> m)
          (compose (skv_key data) (skv_sort_key data) \<mapsto> skv_value data)))"
  unfolding shard_create_def composite_key_compose Let_def by (simp split: option.splits sum.splits prod.splits)

lemma shard_read_compose:
  "shard_read STORAGE table key sk =
     (case STORAGE table of
        None \<Rightarrow> (Inl (HTTPException 404 ''Table not found''), STORAGE)
      | Some tbl \<Rightarrow>
          (case tbl (compose key sk) of
             None \<Rightarrow> (Inl (HTTPException 404 ''Key not found''), STORAGE)
           | Some v \<Rightarrow> (Inr (ReadOk (compose key sk) v), STORAGE)))"
  unfolding shard_read_def composite_key_compose Let_def by (simp split: option.splits sum.splits prod.splits)

lemma shard_exists_compose:
  "shard_exists STORAGE table key sk =
     (case STORAGE table of
        None \<Rightarrow> (Inr (Exists False), STORAGE)
      | Some tbl \<Rightarrow> (Inr (Exists (tbl (compose key sk) \<noteq> None)), STORAGE))"
  unfolding shard_exists_def composite_key_compose Let_def by (simp split: option.splits sum.splits prod.splits)

lemma shard_update_compose:
  "shard_update STORAGE data =
     (case STORAGE (skv_table data) of
        None \<Rightarrow> (Inl (HTTPException 404 ''Table not found''), STORAGE)
      | Some tbl \<Rightarrow>
          (if tbl (compose (skv_key data) (skv_sort_key data)) = None
           then (Inl (HTTPException 404 ''Key not found for update''), STORAGE)
           else (Inr (Updated (skv_table data) (compose (skv_key data) (skv_sort_key data)) (skv_value data)),
                 STORAGE(skv_table data \<mapsto> tbl(compose (skv_key data) (skv_sort_key data) \<mapsto> skv_value data)))))"
  unfolding shard_update_def composite_key_compose Let_def by (simp split: option.splits sum.splits prod.splits)

lemma shard_delete_compose:
  "shard_delete STORAGE table key sk =
     (case STORAGE table of
        None \<Rightarrow> (Inl (HTTPException 404 ''Table not found''), STORAGE)
      | Some tbl \<Rightarrow>
          (if tbl (compose key sk) = None
           then (Inl (HTTPException 404 ''Key not found''), STORAGE)
           else (Inr (Deleted (compose key sk)), STORAGE(table \<mapsto> tbl(compose key sk := None)))))"
  unfolding shard_delete_def composite_key_compose Let_def by (simp split: option.splits sum.splits prod.splits)

lemma app_create_record_compose:
  "app_create_record T table_name rec =
     (case T table_name of
        None \<Rightarrow> (Inl (HTTPException 404 ''Table not found''), T)
      | Some table \<Rightarrow>
          (if table (compose (rec_key rec) (rec_sort_key rec)) \<noteq> None
           then (Inl (HTTPException 400 ''Record already exists''), T)
           else (Inr (RecordCreated (compose (rec_key rec) (rec_sort_key rec))),
                 T(table_name \<mapsto> table(compose (rec_key rec) (rec_sort_key rec) \<mapsto> rec_value rec)))))"
  unfolding app_create_record_def composite_key_compose Let_def by (simp split: option.splits)

lemma parse_body_payload:
  "parse_body (payload_of d ck) =
     (case kv_value d of
        None \<Rightarrow> Inl RequestValidationError
      | Some v \<Rightarrow> Inr \<lparr>skv_table = kv_table d, skv_key = kv_key d,
                        skv_sort_key = kv_sort_key d, skv_value = v\<rparr>)"
  by (simp add: parse_body_def payload_of_def split: option.splits)

subsection \<open>The shard node's records\<close>

text \<open>
  Claim C6. On a shard that knows the table, a read with a composite key that is not
  in the table fails with status 404 (key not found), and an update with a composite
  key that is not in the table fails with status 404 and returns the storage as it
  was: an update never creates the record.
\<close>

theorem shard_missing_key_not_found:
  assumes "STORAGE table = Some tbl" and "tbl (compose key sk) = None"
  shows "shard_read STORAGE table key sk = (Inl (HTTPException 404 ''Key not found''), STORAGE)
       \<and> shard_update STORAGE \<lparr>skv_table = table, skv_key = key, skv_sort_key = sk, skv_value = v\<rparr>
           = (Inl (HTTPException 404 ''Key not found for update''), STORAGE)
       \<and> status_code (fst (shard_read STORAGE table key sk)) = 404
       \<and> status_code (fst (shard_update STORAGE \<lparr>skv_table = table, skv_key = key, skv_sort_key = sk, skv_value = v\<rparr>)) = 404"
  unfolding shard_read_def shard_update_def composite_key_compose
  using assms by (simp add: status_code_def)

theorem shard_missing_key_not_found_witness:
  "shard_read [''orders'' \<mapsto> [''u1:o5'' \<mapsto> (10::nat)]] ''orders'' ''u2'' (Some ''o5'')
     = (Inl (HTTPException 404 ''Key not found''), [''orders'' \<mapsto> [''u1:o5'' \<mapsto> 10]])
   \<and> shard_update [''orders'' \<mapsto> [''u1:o5'' \<mapsto> (10::nat)]]
        \<lparr>skv_table = ''orders'', skv_key = ''u2'', skv_sort_key = Some ''o5'', skv_value = 11\<rparr>
     = (Inl (HTTPException 404 ''Key not found for update''), [''orders'' \<mapsto> [''u1:o5'' \<mapsto> 10]])"
  using shard_missing_key_not_found [of "[''orders'' \<mapsto> [''u1:o5'' \<mapsto> (10::nat)]]" "''orders''"
      "[''u1:o5'' \<mapsto> (10::nat)]" "''u2''" "Some ''o5''" 11]
  by (simp add: compose_def)

text \<open>
  Claim C9. A create for a composite key that already holds a record is specified to
  fail and to keep the stored value. The shard's handler has no such check: on a table
  holding \<open>{"amt": 10}\<close> under \<open>u1:o5\<close>, a create for key \<open>u1\<close> and sort key \<open>o5\<close>
  with value \<open>{"amt": 99}\<close> answers \<open>Created\<close> and the table holds the new value
  afterwards. The single-process application rejects the same create with status
  400 and keeps the old value.
\<close>

theorem shard_create_overwrites:
  "shard_create [''orders'' \<mapsto> [''u1:o5'' \<mapsto> [(''amt'', 10::nat)]]]
      \<lparr>skv_table = ''orders'', skv_key = ''u1'', skv_sort_key = Some ''o5'',
       skv_value = [(''amt'', 99)]\<rparr>
   = (Inr (Created ''orders'' ''u1:o5''), [''orders'' \<mapsto> [''u1:o5'' \<mapsto> [(''amt'', 99)]]])
   \<and> app_create_record [''orders'' \<mapsto> [''u1:o5'' \<mapsto> [(''amt'', 10::nat)]]] ''orders''
      \<lparr>rec_key = ''u1'', rec_sort_key = Some ''o5'', rec_value = [(''amt'', 99)]\<rparr>
   = (Inl (HTTPException 400 ''Record already exists''),
      [''orders'' \<mapsto> [''u1:o5'' \<mapsto> [(''amt'', 10)]]])"
  by (simp add: shard_create_def app_create_record_def truthy_def fstr_def Let_def)

subsection \<open>Routing in the coordinator\<close>

lemma get_shard_for_key_cong:
  "SHARDS c' = SHARDS c \<Longrightarrow> RING c' = RING c \<Longrightarrow> get_shard_for_key c' key = get_shard_for_key c key"
  by (simp add: get_shard_for_key_def split: option.splits)

lemma get_shard_for_key_tables:
  "get_shard_for_key (c\<lparr>TABLES := ts\<rparr>) key = get_shard_for_key c key"
  by (rule get_shard_for_key_cong) simp_all

text \<open>The routed operations, with the composite key named by the rule.\<close>

lemma create_record_compose:
  "create_record client c net data =
     (case get_shard_for_key c (compose (kv_key data) (kv_sort_key data)) of
        Inl e \<Rightarrow> (Inl e, net)
      | Inr (shard_name, shard_url) \<Rightarrow>
          (case remote_call client net
                  (POST (shard_url @ ''/create'')
                     (payload_of data (compose (kv_key data) (kv_sort_key data)))) of
             (Inl exc, net') \<Rightarrow> (Inl (Unhandled exc), net')
           | (Inr resp, net') \<Rightarrow>
               (case resp_json resp of
                  Inl exc \<Rightarrow> (Inl (Unhandled exc), net')
                | Inr j \<Rightarrow> (Inr \<lparr>target_shard = shard_name, response = j\<rparr>, net'))))"
  unfolding create_record_def composite_key_compose Let_def by (rule refl)

lemma read_record_compose:
  "read_record client c net table key sk =
     (case get_shard_for_key c (compose key sk) of
        Inl e \<Rightarrow> (Inl e, net)
      | Inr (shard_name, shard_url) \<Rightarrow>
          (case remote_call client net (GET (shard_url @ ''/read/'' @ table @ ''/'' @ key) sk) of
             (Inl exc, net') \<Rightarrow> (Inl (Unhandled exc), net')
           | (Inr resp, net') \<Rightarrow>
               (if resp_status resp \<noteq> 200
                then (Inl (CoordHTTPException (resp_status resp) (RespText (resp_body resp))), net')
                else (case resp_json resp of
                        Inl exc \<Rightarrow> (Inl (Unhandled exc), net')
                      | Inr j \<Rightarrow> (Inr \<lparr>target_shard = shard_name, response = j\<rparr>, net')))))"
  unfolding read_record_def composite_key_compose Let_def by (rule refl)

lemma exists_record_compose:
  "exists_record client c net table key sk =
     (case get_shard_for_key c (compose key sk) of
        Inl e \<Rightarrow> (Inl e, net)
      | Inr (shard_name, shard_url) \<Rightarrow>
          (case remote_call client net (GET (shard_url @ ''/exists/'' @ table @ ''/'' @ key) sk) of
             (Inl exc, net') \<Rightarrow> (Inl (Unhandled exc), net')
           | (Inr resp, net') \<Rightarrow>
               (case resp_json resp of
                  Inl exc \<Rightarrow> (Inl (Unhandled exc), net')
                | Inr j \<Rightarrow> (Inr \<lparr>target_shard = shard_name, response = j\<rparr>, net'))))"
  unfolding exists_record_def composite_key_compose Let_def by (rule refl)

lemma update_record_compose:
  "update_record client c net data =
     (case get_shard_for_key c (compose (kv_key data) (kv_sort_key data)) of
        Inl e \<Rightarrow> (Inl e, net)
      | Inr (shard_name, shard_url) \<Rightarrow>
          (case remote_call client net
                  (PUT (shard_url @ ''/update'')
                     (payload_of data (compose (kv_key data) (kv_sort_key data)))) of
             (Inl exc, net') \<Rightarrow> (Inl (Unhandled exc), net')
           | (Inr resp, net') \<Rightarrow>
               (if resp_status resp \<noteq> 200
                then (Inl (CoordHTTPException (resp_status resp) (RespText (resp_body resp))), net')
                else (case resp_json resp of
                        Inl exc \<Rightarrow> (Inl (Unhandled exc), net')
                      | Inr j \<Rightarrow> (Inr \<lparr>target_shard = shard_name, response = j\<rparr>, net')))))"
  unfolding update_record_def composite_key_compose Let_def by (rule refl)

lemma delete_record_compose:
  "delete_record client c net table key sk =
     (case get_shard_for_key c (compose key sk) of
        Inl e \<Rightarrow> (Inl e, net)
      | Inr (shard_name, shard_url) \<Rightarrow>
          (case remote_call client net (DELETE (shard_url @ ''/delete/'' @ table @ ''/'' @ key) sk) of
             (Inl exc, net') \<Rightarrow> (Inl (Unhandled exc), net')
           | (Inr resp, net') \<Rightarrow>
               (if resp_status resp \<notin> {200, 204}
                then (Inl (CoordHTTPException (resp_status resp) (RespText (resp_body resp))), net')
                else (case resp_json resp of
                        Inl exc \<Rightarrow> (Inl (Unhandled exc), net')
                      | Inr j \<Rightarrow> (Inr \<lparr>target_shard = shard_name, response = j\<rparr>, net')))))"
  unfolding delete_record_def composite_key_compose Let_def by (rule refl)

lemmas crud_compose = create_record_compose read_record_compose exists_record_compose
  update_record_compose delete_record_compose

text \<open>The routed operations do not read the table catalog.\<close>

lemma crud_tables:
  "create_record client (c\<lparr>TABLES := ts\<rparr>) net d = create_record client c net d"
  "read_record client (c\<lparr>TABLES := ts\<rparr>) net t k sk = read_record client c net t k sk"
  "exists_record client (c\<lparr>TABLES := ts\<rparr>) net t k sk = exists_record client c net t k sk"
  "update_record client (c\<lparr>TABLES := ts\<rparr>) net d = update_record client c net d"
  "delete_record client (c\<lparr>TABLES := ts\<rparr>) net t k sk = delete_record client c net t k sk"
  unfolding crud_compose get_shard_for_key_tables by (rule refl)+

text \<open>Each routed operation calls the client once, at the shard resolved for its key.\<close>

lemma remote_call_eq:
  "remote_call client net req
     = (fst (client req (world net)), \<lparr>world = snd (client req (world net)), calls = calls net @ [req]\<rparr>)"
  by (simp add: remote_call_def split: prod.splits)

lemma one_callI:
  fixes res :: "('v, 'w) crud_result"
  assumes "\<And>e. get_shard_for_key c ck = Inl e \<Longrightarrow> res = (Inl e, net)"
    and "\<And>n u. (get_shard_for_key c ck :: 'v coord_error + string \<times> string) = Inr (n, u) \<Longrightarrow>
           snd res = snd (remote_call client net (req u))
           \<and> (\<forall>r. fst res = Inr r \<longrightarrow> target_shard r = n)"
  shows "one_call client c net ck req res"
proof (cases "get_shard_for_key c ck :: 'v coord_error + string \<times> string")
  case (Inl e)
  with assms(1) show ?thesis by (simp add: one_call_def)
next
  case (Inr p)
  obtain n u where p: "p = (n, u)" by (cases p)
  from assms(2) [of n u] Inr p
  have "snd res = snd (remote_call client net (req u))"
    and "\<forall>r. fst res = Inr r \<longrightarrow> target_shard r = n" by simp_all
  then show ?thesis
    using Inr p by (simp add: one_call_def remote_call_eq split: sum.splits)
qed

lemma one_call_create:
  "one_call client c net (compose (kv_key d) (kv_sort_key d))
     (\<lambda>u. POST (u @ ''/create'') (payload_of d (compose (kv_key d) (kv_sort_key d))))
     (create_record client c net d)"
  by (rule one_callI) (auto simp: create_record_compose split: sum.splits prod.splits)

lemma one_call_read:
  "one_call client c net (compose k sk) (\<lambda>u. GET (u @ ''/read/'' @ t @ ''/'' @ k) sk)
     (read_record client c net t k sk)"
  by (rule one_callI) (auto simp: read_record_compose split: sum.splits prod.splits)

lemma one_call_exists:
  "one_call client c net (compose k sk) (\<lambda>u. GET (u @ ''/exists/'' @ t @ ''/'' @ k) sk)
     (exists_record client c net t k sk)"
  by (rule one_callI) (auto simp: exists_record_compose split: sum.splits prod.splits)

lemma one_call_update:
  "one_call client c net (compose (kv_key d) (kv_sort_key d))
     (\<lambda>u. PUT (u @ ''/update'') (payload_of d (compose (kv_key d) (kv_sort_key d))))
     (update_record client c net d)"
  by (rule one_callI) (auto simp: update_record_compose split: sum.splits prod.splits)

lemma one_call_delete:
  "one_call client c net (compose k sk) (\<lambda>u. DELETE (u @ ''/delete/'' @ t @ ''/'' @ k) sk)
     (delete_record client c net t k sk)"
  by (rule one_callI) (auto simp: delete_record_compose split: sum.splits prod.splits)

text \<open>read, update and delete surface the outcome of their call.\<close>

lemma surfaces_read:
  fixes client :: "('v, 'w) client"
  assumes "(get_shard_for_key c (compose k sk) :: 'v coord_error + string \<times> string) = Inr (n, u)"
  shows "surfaces {200} (fst (client (GET (u @ ''/read/'' @ t @ ''/'' @ k) sk) (world net))) n
           (fst (read_record client c net t k sk))"
  unfolding read_record_compose assms remote_call_eq surfaces_def
  by (simp split: sum.splits)

lemma surfaces_update:
  fixes client :: "('v, 'w) client"
  assumes "(get_shard_for_key c (compose (kv_key d) (kv_sort_key d)) :: 'v coord_error + string \<times> string)
             = Inr (n, u)"
  shows "surfaces {200}
           (fst (client (PUT (u @ ''/update'') (payload_of d (compose (kv_key d) (kv_sort_key d))))
                   (world net))) n
           (fst (update_record client c net d))"
  unfolding update_record_compose assms remote_call_eq surfaces_def
  by (simp split: sum.splits)

lemma surfaces_delete:
  fixes client :: "('v, 'w) client"
  assumes "(get_shard_for_key c (compose k sk) :: 'v coord_error + string \<times> string) = Inr (n, u)"
  shows "surfaces {200, 204} (fst (client (DELETE (u @ ''/delete/'' @ t @ ''/'' @ k) sk) (world net))) n
           (fst (delete_record client c net t k sk))"
  unfolding delete_record_compose assms remote_call_eq surfaces_def
  by (simp split: sum.splits)

text \<open>The small deployment, evaluated.\<close>

lemma demo_route_any:
  "(get_shard_for_key demo_coordinator key :: 'v coord_error + string \<times> string) = Inr (''s1'', ''http://s1:8000'')"
  by (simp add: get_shard_for_key_def get_node_def demo_coordinator_def)

lemma demo_registered_route:
  "(get_shard_for_key demo_registered key :: 'v coord_error + string \<times> string) = Inr (''s1'', ''http://s1:8000'')"
  unfolding demo_registered_def get_shard_for_key_tables by (rule demo_route_any)


lemma demo_tables: "TABLES demo_coordinator = []"
  by (simp add: demo_coordinator_def)

lemma answering_call:
  "remote_call (answering resp) net req = (Inr resp, \<lparr>world = world net, calls = calls net @ [req]\<rparr>)"
  by (simp add: remote_call_def answering_def)

lemma refusing_call:
  "remote_call refusing net req
     = (Inl (ClientError ''ConnectError''), \<lparr>world = world net, calls = calls net @ [req]\<rparr>)"
  by (simp add: remote_call_def refusing_def)

subsection \<open>Round trip\<close>

text \<open>
  Claim C2. With the table \<open>orders\<close> registered, a create for key \<open>a?b\<close> and sort key
  \<open>o5\<close> carries the key in the request body, and the shard stores the value under
  \<open>a?b:o5\<close>. The read with the same table, key and sort key writes the key into the
  URL as it is: the request is for \<open>http://s1:8000/read/orders/a?b\<close>, whose path is
  \<open>/read/orders/a\<close>, so the shard's route \<open>/read/{table}/{key}\<close> hands its handler
  the key \<open>a\<close>. The shard holds nothing under \<open>a:o5\<close> and answers 404 "Key not
  found", which the coordinator raises again: the read does not return the value
  that was created.
\<close>

theorem read_after_create_cuts_key_at_question_mark:
  "(register_table demo_coordinator demo_orders :: (nat coord_error + coord_body) \<times> coordinator)
     = (Inr (TableRegistered ''orders''), demo_registered)
   \<and> create_record (answering (json_response (Created ''orders'' ''a?b:o5''))) demo_registered
        demo_network demo_special
     = (Inr \<lparr>target_shard = ''s1'', response = Body (Created ''orders'' ''a?b:o5'')\<rparr>,
        \<lparr>world = (),
         calls = [POST ''http://s1:8000/create''
                    \<lparr>pl_table = ''orders'', pl_key = ''a?b'', pl_sort_key = Some ''o5'',
                     pl_value = Some 10, pl_composite_key = ''a?b:o5''\<rparr>]\<rparr>)
   \<and> parse_body \<lparr>pl_table = ''orders'', pl_key = ''a?b'', pl_sort_key = Some ''o5'',
                  pl_value = Some (10::nat), pl_composite_key = ''a?b:o5''\<rparr>
     = Inr \<lparr>skv_table = ''orders'', skv_key = ''a?b'', skv_sort_key = Some ''o5'', skv_value = 10\<rparr>
   \<and> shard_create Map.empty
        \<lparr>skv_table = ''orders'', skv_key = ''a?b'', skv_sort_key = Some ''o5'', skv_value = (10::nat)\<rparr>
     = (Inr (Created ''orders'' ''a?b:o5''), [''orders'' \<mapsto> [''a?b:o5'' \<mapsto> 10]])
   \<and> read_record (answering (error_response (HTTPException 404 ''Key not found''))) demo_registered
        demo_network ''orders'' ''a?b'' (Some ''o5'')
     = (Inl (CoordHTTPException 404 (RespText (Json (Detail ''Key not found'')))),
        \<lparr>world = (), calls = [GET ''http://s1:8000/read/orders/a?b'' (Some ''o5'')]\<rparr>)
   \<and> url_path ''http://s1:8000/read/orders/a?b'' = ''/read/orders/a''
   \<and> shard_read [''orders'' \<mapsto> [''a?b:o5'' \<mapsto> (10::nat)]] ''orders'' ''a'' (Some ''o5'')
     = (Inl (HTTPException 404 ''Key not found''), [''orders'' \<mapsto> [''a?b:o5'' \<mapsto> 10]])"
proof (intro conjI)
  show "(register_table demo_coordinator demo_orders :: (nat coord_error + coord_body) \<times> coordinator)
     = (Inr (TableRegistered ''orders''), demo_registered)"
    by (simp add: register_table_def demo_coordinator_def demo_orders_def demo_registered_def)
  show "create_record (answering (json_response (Created ''orders'' ''a?b:o5''))) demo_registered
        demo_network demo_special
     = (Inr \<lparr>target_shard = ''s1'', response = Body (Created ''orders'' ''a?b:o5'')\<rparr>,
        \<lparr>world = (),
         calls = [POST ''http://s1:8000/create''
                    \<lparr>pl_table = ''orders'', pl_key = ''a?b'', pl_sort_key = Some ''o5'',
                     pl_value = Some 10, pl_composite_key = ''a?b:o5''\<rparr>]\<rparr>)"
    unfolding create_record_compose demo_registered_route answering_call
    by (simp add: demo_special_def compose_def payload_of_def json_response_def resp_json_def
          demo_network_def)
  show "parse_body \<lparr>pl_table = ''orders'', pl_key = ''a?b'', pl_sort_key = Some ''o5'',
                  pl_value = Some (10::nat), pl_composite_key = ''a?b:o5''\<rparr>
     = Inr \<lparr>skv_table = ''orders'', skv_key = ''a?b'', skv_sort_key = Some ''o5'', skv_value = 10\<rparr>"
    by (simp add: parse_body_def)
  show "shard_create Map.empty
        \<lparr>skv_table = ''orders'', skv_key = ''a?b'', skv_sort_key = Some ''o5'', skv_value = (10::nat)\<rparr>
     = (Inr (Created ''orders'' ''a?b:o5''), [''orders'' \<mapsto> [''a?b:o5'' \<mapsto> 10]])"
    by (simp add: shard_create_compose compose_def)
  show "read_record (answering (error_response (HTTPException 404 ''Key not found''))) demo_registered
        demo_network ''orders'' ''a?b'' (Some ''o5'')
     = (Inl (CoordHTTPException 404 (RespText (Json (Detail ''Key not found'')))),
        \<lparr>world = (), calls = [GET ''http://s1:8000/read/orders/a?b'' (Some ''o5'')]\<rparr>)"
    unfolding read_record_compose demo_registered_route answering_call
    by (simp add: error_response_def demo_network_def)
  show "url_path ''http://s1:8000/read/orders/a?b'' = ''/read/orders/a''"
    by (simp add: url_path_def Let_def)
  show "shard_read [''orders'' \<mapsto> [''a?b:o5'' \<mapsto> (10::nat)]] ''orders'' ''a'' (Some ''o5'')
     = (Inl (HTTPException 404 ''Key not found''), [''orders'' \<mapsto> [''a?b:o5'' \<mapsto> 10]])"
    by (simp add: shard_read_compose compose_def)
qed

subsection \<open>The empty sort key\<close>

text \<open>
  Claim C10. A sort key that is the empty string is treated as no sort key. For either
  of the two, each coordinator operation resolves the shard for the bare partition key
  and hands the client one request at that shard's address, carrying the key and the
  sort key as received; and each shard handler works on the entry stored under the bare
  partition key: create stores the value there, read returns what is there, exists
  tests it, update replaces it and delete removes it. So a record written with the
  empty sort key and one written without a sort key are the same entry of the same
  shard.
\<close>

theorem empty_sort_key_is_no_sort_key:
  fixes client :: "('v, 'w) client"
  assumes "sk = None \<or> sk = Some []"
  shows "one_call client c net (kv_key d)
           (\<lambda>u. POST (u @ ''/create'') (payload_of (d\<lparr>kv_sort_key := sk\<rparr>) (kv_key d)))
           (create_record client c net (d\<lparr>kv_sort_key := sk\<rparr>))
       \<and> one_call client c net k (\<lambda>u. GET (u @ ''/read/'' @ t @ ''/'' @ k) sk)
           (read_record client c net t k sk)
       \<and> one_call client c net k (\<lambda>u. GET (u @ ''/exists/'' @ t @ ''/'' @ k) sk)
           (exists_record client c net t k sk)
       \<and> one_call client c net (kv_key d)
           (\<lambda>u. PUT (u @ ''/update'') (payload_of (d\<lparr>kv_sort_key := sk\<rparr>) (kv_key d)))
           (update_record client c net (d\<lparr>kv_sort_key := sk\<rparr>))
       \<and> one_call client c net k (\<lambda>u. DELETE (u @ ''/delete/'' @ t @ ''/'' @ k) sk)
           (delete_record client c net t k sk)
       \<and> shard_create S \<lparr>skv_table = t, skv_key = k, skv_sort_key = sk, skv_value = v\<rparr>
           = (Inr (Created t k),
              S(t \<mapsto> (case S t of None \<Rightarrow> Map.empty | Some m \<Rightarrow> m)(k \<mapsto> v)))
       \<and> shard_read S t k sk
           = (case S t of
                None \<Rightarrow> (Inl (HTTPException 404 ''Table not found''), S)
              | Some tbl \<Rightarrow>
                  (case tbl k of
                     None \<Rightarrow> (Inl (HTTPException 404 ''Key not found''), S)
                   | Some x \<Rightarrow> (Inr (ReadOk k x), S)))
       \<and> shard_exists S t k sk
           = (case S t of
                None \<Rightarrow> (Inr (Exists False), S)
              | Some tbl \<Rightarrow> (Inr (Exists (tbl k \<noteq> None)), S))
       \<and> shard_update S \<lparr>skv_table = t, skv_key = k, skv_sort_key = sk, skv_value = v\<rparr>
           = (case S t of
                None \<Rightarrow> (Inl (HTTPException 404 ''Table not found''), S)
              | Some tbl \<Rightarrow>
                  (if tbl k = None
                   then (Inl (HTTPException 404 ''Key not found for update''), S)
                   else (Inr (Updated t k v), S(t \<mapsto> tbl(k \<mapsto> v)))))
       \<and> shard_delete S t k sk
           = (case S t of
                None \<Rightarrow> (Inl (HTTPException 404 ''Table not found''), S)
              | Some tbl \<Rightarrow>
                  (if tbl k = None
                   then (Inl (HTTPException 404 ''Key not found''), S)
                   else (Inr (Deleted k), S(t \<mapsto> tbl(k := None)))))"
proof -
  have ck: "compose k sk = k" "compose (kv_key d) sk = kv_key d"
    using assms by (simp_all add: compose_absent)
  have d: "kv_key (d\<lparr>kv_sort_key := sk\<rparr>) = kv_key d" "kv_sort_key (d\<lparr>kv_sort_key := sk\<rparr>) = sk"
    by simp_all
  have sd: "skv_table \<lparr>skv_table = t, skv_key = k, skv_sort_key = sk, skv_value = v\<rparr> = t"
    "skv_key \<lparr>skv_table = t, skv_key = k, skv_sort_key = sk, skv_value = v\<rparr> = k"
    "skv_sort_key \<lparr>skv_table = t, skv_key = k, skv_sort_key = sk, skv_value = v\<rparr> = sk"
    "skv_value \<lparr>skv_table = t, skv_key = k, skv_sort_key = sk, skv_value = v\<rparr> = v"
    by simp_all
  have c1: "one_call client c net (kv_key d)
           (\<lambda>u. POST (u @ ''/create'') (payload_of (d\<lparr>kv_sort_key := sk\<rparr>) (kv_key d)))
           (create_record client c net (d\<lparr>kv_sort_key := sk\<rparr>))"
    using one_call_create [of client c net "d\<lparr>kv_sort_key := sk\<rparr>"] unfolding d ck .
  have c2: "one_call client c net k (\<lambda>u. GET (u @ ''/read/'' @ t @ ''/'' @ k) sk)
           (read_record client c net t k sk)"
    using one_call_read [of client c net k sk t] unfolding ck .
  have c3: "one_call client c net k (\<lambda>u. GET (u @ ''/exists/'' @ t @ ''/'' @ k) sk)
           (exists_record client c net t k sk)"
    using one_call_exists [of client c net k sk t] unfolding ck .
  have c4: "one_call client c net (kv_key d)
           (\<lambda>u. PUT (u @ ''/update'') (payload_of (d\<lparr>kv_sort_key := sk\<rparr>) (kv_key d)))
           (update_record client c net (d\<lparr>kv_sort_key := sk\<rparr>))"
    using one_call_update [of client c net "d\<lparr>kv_sort_key := sk\<rparr>"] unfolding d ck .
  have c5: "one_call client c net k (\<lambda>u. DELETE (u @ ''/delete/'' @ t @ ''/'' @ k) sk)
           (delete_record client c net t k sk)"
    using one_call_delete [of client c net k sk t] unfolding ck .
  have s1: "shard_create S \<lparr>skv_table = t, skv_key = k, skv_sort_key = sk, skv_value = v\<rparr>
           = (Inr (Created t k),
              S(t \<mapsto> (case S t of None \<Rightarrow> Map.empty | Some m \<Rightarrow> m)(k \<mapsto> v)))"
    unfolding shard_create_compose sd ck by (rule refl)
  have s2: "shard_read S t k sk
           = (case S t of
                None \<Rightarrow> (Inl (HTTPException 404 ''Table not found''), S)
              | Some tbl \<Rightarrow>
                  (case tbl k of
                     None \<Rightarrow> (Inl (HTTPException 404 ''Key not found''), S)
                   | Some x \<Rightarrow> (Inr (ReadOk k x), S)))"
    unfolding shard_read_compose ck by (rule refl)
  have s3: "shard_exists S t k sk
           = (case S t of
                None \<Rightarrow> (Inr (Exists False), S)
              | Some tbl \<Rightarrow> (Inr (Exists (tbl k \<noteq> None)), S))"
    unfolding shard_exists_compose ck by (rule refl)
  have s4: "shard_update S \<lparr>skv_table = t, skv_key = k, skv_sort_key = sk, skv_value = v\<rparr>
           = (case S t of
                None \<Rightarrow> (Inl (HTTPException 404 ''Table not found''), S)
              | Some tbl \<Rightarrow>
                  (if tbl k = None
                   then (Inl (HTTPException 404 ''Key not found for update''), S)
                   else (Inr (Updated t k v), S(t \<mapsto> tbl(k \<mapsto> v)))))"
    unfolding shard_update_compose sd ck by (rule refl)
  have s5: "shard_delete S t k sk
           = (case S t of
                None \<Rightarrow> (Inl (HTTPException 404 ''Table not found''), S)
              | Some tbl \<Rightarrow>
                  (if tbl k = None
                   then (Inl (HTTPException 404 ''Key not found''), S)
                   else (Inr (Deleted k), S(t \<mapsto> tbl(k := None)))))"
    unfolding shard_delete_compose ck by (rule refl)
  from c1 c2 c3 c4 c5 s1 s2 s3 s4 s5 show ?thesis by (intro conjI)
qed

theorem empty_sort_key_is_no_sort_key_witness:
  "shard_create [''orders'' \<mapsto> [''u1'' \<mapsto> (10::nat)]]
        \<lparr>skv_table = ''orders'', skv_key = ''u1'', skv_sort_key = Some [], skv_value = 11\<rparr>
      = (Inr (Created ''orders'' ''u1''), [''orders'' \<mapsto> [''u1'' \<mapsto> 11]])
   \<and> shard_read [''orders'' \<mapsto> [''u1'' \<mapsto> (10::nat)]] ''orders'' ''u1'' (Some [])
      = (Inr (ReadOk ''u1'' 10), [''orders'' \<mapsto> [''u1'' \<mapsto> 10]])"
proof -
  have h: "Some [] = (None :: string option) \<or> Some [] = Some ([] :: string)"
    by simp
  note t = empty_sort_key_is_no_sort_key [OF h, where S = "[''orders'' \<mapsto> [''u1'' \<mapsto> (10::nat)]]"
      and t = "''orders''" and k = "''u1''" and v = 11 and client = "refusing :: (nat, unit) client"
      and c = demo_coordinator and net = demo_network and d = demo_order]
  have a: "shard_create [''orders'' \<mapsto> [''u1'' \<mapsto> (10::nat)]]
        \<lparr>skv_table = ''orders'', skv_key = ''u1'', skv_sort_key = Some [], skv_value = 11\<rparr>
      = (Inr (Created ''orders'' ''u1''), [''orders'' \<mapsto> [''u1'' \<mapsto> 11]])"
    using t [THEN conjunct2, THEN conjunct2, THEN conjunct2, THEN conjunct2, THEN conjunct2,
             THEN conjunct1]
    by simp
  have b: "shard_read [''orders'' \<mapsto> [''u1'' \<mapsto> (10::nat)]] ''orders'' ''u1'' (Some [])
      = (Inr (ReadOk ''u1'' 10), [''orders'' \<mapsto> [''u1'' \<mapsto> 10]])"
    using t [THEN conjunct2, THEN conjunct2, THEN conjunct2, THEN conjunct2, THEN conjunct2,
             THEN conjunct2, THEN conjunct1]
    by simp
  from a b show ?thesis by (intro conjI)
qed

subsection \<open>The empty ring\<close>

lemma get_node_empty: "ring r = [] \<Longrightarrow> get_node r key = None"
  by (simp add: get_node_def)

lemma get_shard_for_key_empty:
  "ring (RING c) = [] \<Longrightarrow> get_shard_for_key c key = Inl (CoordHTTPException 500 (Msg ''No shards available''))"
  by (simp add: get_shard_for_key_def get_node_empty)

text \<open>
  Claim C4. While the ring is empty, shard resolution and each of the five routed
  operations fail with the coordinator's own \<open>HTTPException\<close> 500 "No shards available":
  not an uncaught exception, no shard chosen, no request handed to the client. Status
  500 is in the server-error class and not in the client-error class.
\<close>

theorem empty_ring_no_shards_available:
  fixes client :: "('v, 'w) client"
  assumes "ring (RING c) = []"
  shows "get_shard_for_key c key = (Inl (CoordHTTPException 500 (Msg ''No shards available'')) :: 'v coord_error + string \<times> string)
       \<and> create_record client c net d = (Inl (CoordHTTPException 500 (Msg ''No shards available'')), net)
       \<and> read_record client c net t k sk = (Inl (CoordHTTPException 500 (Msg ''No shards available'')), net)
       \<and> exists_record client c net t k sk = (Inl (CoordHTTPException 500 (Msg ''No shards available'')), net)
       \<and> update_record client c net d = (Inl (CoordHTTPException 500 (Msg ''No shards available'')), net)
       \<and> delete_record client c net t k sk = (Inl (CoordHTTPException 500 (Msg ''No shards available'')), net)
       \<and> is_server_error (coord_status (CoordHTTPException 500 (Msg ''No shards available'') :: 'v coord_error))
       \<and> \<not> is_client_error (coord_status (CoordHTTPException 500 (Msg ''No shards available'') :: 'v coord_error))"
  using assms
  by (simp add: crud_compose get_shard_for_key_empty coord_status_def is_client_error_def is_server_error_def)

theorem empty_ring_no_shards_available_witness:
  "ring (RING (new_coordinator demo_hash 2)) = []
   \<and> read_record refusing (new_coordinator demo_hash 2) demo_network ''orders'' ''u1'' (Some ''o5'')
       = (Inl (CoordHTTPException 500 (Msg ''No shards available'')), demo_network)"
proof -
  have h: "ring (RING (new_coordinator demo_hash 2)) = []"
    by (simp add: new_coordinator_def new_ring_def)
  from empty_ring_no_shards_available [OF h, where net = demo_network and t = "''orders''"
      and k = "''u1''" and sk = "Some ''o5''" and client = refusing]
  show ?thesis using h by blast
qed

subsection \<open>Routing is stable between registrations\<close>

lemma serve_keeps_routing:
  "\<not> is_register_shard r \<Longrightarrow>
   SHARDS (fst (serve client r s)) = SHARDS (fst s) \<and> RING (fst (serve client r s)) = RING (fst s)"
  by (cases r; cases s) (simp_all add: register_table_def list_tables_def list_shards_def)

lemma serve_all_keeps_routing:
  "\<forall>r \<in> set rs. \<not> is_register_shard r \<Longrightarrow>
   SHARDS (fst (serve_all client rs s)) = SHARDS (fst s) \<and> RING (fst (serve_all client rs s)) = RING (fst s)"
proof (induction rs arbitrary: s)
  case Nil
  then show ?case by simp
next
  case (Cons r rs)
  then show ?case using serve_keeps_routing [of r client s] by simp
qed

text \<open>
  Claim C5. Across any sequence of requests that contains no shard registration, shard
  resolution for a key gives the same answer (the same shard name and address, or
  the same error) as before the sequence: resolution reads the registry and the ring
  and changes neither. Two coordinator states with the same registry and the same
  ring resolve every key alike.
\<close>

theorem routing_fixed_without_registration:
  fixes rs :: "'v request list" and client :: "('v, 'w) client"
  assumes "\<forall>r \<in> set rs. \<not> is_register_shard r"
  shows "(get_shard_for_key (fst (serve_all client rs (c, net))) key :: 'x coord_error + string \<times> string)
         = get_shard_for_key c key
       \<and> (SHARDS c' = SHARDS c \<and> RING c' = RING c \<longrightarrow>
            (get_shard_for_key c' key :: 'x coord_error + string \<times> string) = get_shard_for_key c key)"
proof (intro conjI impI)
  from serve_all_keeps_routing [OF assms, of client "(c, net)"]
  have "SHARDS (fst (serve_all client rs (c, net))) = SHARDS c"
    "RING (fst (serve_all client rs (c, net))) = RING c"
    by simp_all
  then show "(get_shard_for_key (fst (serve_all client rs (c, net))) key :: 'x coord_error + string \<times> string)
         = get_shard_for_key c key"
    by (rule get_shard_for_key_cong)
next
  assume "SHARDS c' = SHARDS c \<and> RING c' = RING c"
  then show "(get_shard_for_key c' key :: 'x coord_error + string \<times> string) = get_shard_for_key c key"
    by (intro get_shard_for_key_cong) simp_all
qed

theorem routing_fixed_without_registration_witness:
  "is_register_shard (Create demo_order) = False
   \<and> is_register_shard (Read ''orders'' ''u1'' (Some ''o5'') :: nat request) = False
   \<and> (get_shard_for_key
         (fst (serve_all (answering (json_response (Created ''orders'' ''u1:o5'')))
                [Create demo_order, Read ''orders'' ''u1'' (Some ''o5'')]
                (demo_coordinator, demo_network))) ''u1:o5'' :: nat coord_error + string \<times> string)
       = Inr (''s1'', ''http://s1:8000'')"
proof -
  have h: "\<forall>r \<in> set [Create demo_order, Read ''orders'' ''u1'' (Some ''o5'')]. \<not> is_register_shard r"
    by simp
  from routing_fixed_without_registration [OF h, of "answering (json_response (Created ''orders'' ''u1:o5''))"
      demo_coordinator demo_network "''u1:o5''"]
  have "(get_shard_for_key
         (fst (serve_all (answering (json_response (Created ''orders'' ''u1:o5'')))
                [Create demo_order, Read ''orders'' ''u1'' (Some ''o5'')]
                (demo_coordinator, demo_network))) ''u1:o5'' :: nat coord_error + string \<times> string)
       = get_shard_for_key demo_coordinator ''u1:o5''"
    by (rule conjunct1)
  then show ?thesis
    by (simp add: demo_route_any)
qed

subsection \<open>The ring's virtual nodes\<close>



lemma insert_vnode_keeps: "set vs \<subseteq> set (insert_vnode v vs)"
  by (induction vs) auto



lemma add_vnodes_keeps: "set vs \<subseteq> set (add_vnodes h ident is vs)"
proof (induction "is" arbitrary: vs)
  case Nil
  then show ?case by simp
next
  case (Cons i "is")
  from Cons.IH [of "insert_vnode (h (ident @ str_nat i), ident) vs"]
    insert_vnode_keeps [of vs "(h (ident @ str_nat i), ident)"]
  show ?case by auto
qed



subsection \<open>Registration and the ring\<close>





















subsection \<open>One call of the client\<close>

text \<open>
  Claim C7 as stated fails for create, and for a request that cannot be routed. A
  create without a value is rejected by the shard with status 422; given that
  response the coordinator's create returns normally, with the error list as the
  shard's response. On a coordinator without shards a read hands nothing to the
  client.
\<close>

theorem create_masks_shard_status_counterexample:
  "parse_body (payload_of demo_order_no_value ''u1:o5'') = Inl RequestValidationError
   \<and> (error_response RequestValidationError :: nat response)
       = \<lparr>resp_status = 422, resp_body = Json ValidationErrors\<rparr>
   \<and> create_record (answering (error_response RequestValidationError)) demo_coordinator
        demo_network demo_order_no_value
       = (Inr \<lparr>target_shard = ''s1'', response = ValidationErrors\<rparr>,
          \<lparr>world = (),
           calls = [POST ''http://s1:8000/create'' (payload_of demo_order_no_value ''u1:o5'')]\<rparr>)
   \<and> read_record refusing (new_coordinator demo_hash 2) demo_network ''orders'' ''u1'' (Some ''o5'')
       = (Inl (CoordHTTPException 500 (Msg ''No shards available'')),
          (\<lparr>world = (), calls = []\<rparr> :: (nat, unit) network))"
proof (intro conjI)
  show "parse_body (payload_of demo_order_no_value ''u1:o5'') = Inl RequestValidationError"
    by (simp add: parse_body_def payload_of_def demo_order_no_value_def)
  show "(error_response RequestValidationError :: nat response)
       = \<lparr>resp_status = 422, resp_body = Json ValidationErrors\<rparr>"
    by (simp add: error_response_def)
  show "create_record (answering (error_response RequestValidationError)) demo_coordinator
        demo_network demo_order_no_value
       = (Inr \<lparr>target_shard = ''s1'', response = ValidationErrors\<rparr>,
          \<lparr>world = (),
           calls = [POST ''http://s1:8000/create'' (payload_of demo_order_no_value ''u1:o5'')]\<rparr>)"
    unfolding create_record_compose demo_route_any answering_call
    by (simp add: demo_order_no_value_def compose_def error_response_def resp_json_def
          demo_network_def)
  show "read_record refusing (new_coordinator demo_hash 2) demo_network ''orders'' ''u1'' (Some ''o5'')
       = (Inl (CoordHTTPException 500 (Msg ''No shards available'')),
          (\<lparr>world = (), calls = []\<rparr> :: (nat, unit) network))"
    by (simp add: read_record_compose get_shard_for_key_empty new_coordinator_def new_ring_def
          demo_network_def)
qed

text \<open>
  Claim C7, amended. Each of create, read, exists, update and delete calls the HTTP
  client exactly once, with a request at the address of the one shard resolved for the
  composite key, and calls nothing when shard resolution fails; there is no second
  call, so no retry and no fail-over. read, update and delete surface the outcome of
  that call: an exception of the client is not caught, and a response with a status
  other than 200 (for delete: other than 200 and 204) is raised again with the
  shard's status and response text. What create and exists return for a response
  with a non-success status is not part of the statement.
\<close>

theorem one_client_call_status_surfaced_by_read_update_delete:
  fixes client :: "('v, 'w) client"
  shows
    "one_call client c net (compose (kv_key d) (kv_sort_key d))
       (\<lambda>u. POST (u @ ''/create'') (payload_of d (compose (kv_key d) (kv_sort_key d))))
       (create_record client c net d)
   \<and> one_call client c net (compose k sk) (\<lambda>u. GET (u @ ''/read/'' @ t @ ''/'' @ k) sk)
       (read_record client c net t k sk)
   \<and> one_call client c net (compose k sk) (\<lambda>u. GET (u @ ''/exists/'' @ t @ ''/'' @ k) sk)
       (exists_record client c net t k sk)
   \<and> one_call client c net (compose (kv_key d) (kv_sort_key d))
       (\<lambda>u. PUT (u @ ''/update'') (payload_of d (compose (kv_key d) (kv_sort_key d))))
       (update_record client c net d)
   \<and> one_call client c net (compose k sk) (\<lambda>u. DELETE (u @ ''/delete/'' @ t @ ''/'' @ k) sk)
       (delete_record client c net t k sk)
   \<and> ((get_shard_for_key c (compose k sk) :: 'v coord_error + string \<times> string) = Inr (n, u) \<longrightarrow>
        surfaces {200} (fst (client (GET (u @ ''/read/'' @ t @ ''/'' @ k) sk) (world net))) n
          (fst (read_record client c net t k sk))
        \<and> surfaces {200, 204} (fst (client (DELETE (u @ ''/delete/'' @ t @ ''/'' @ k) sk) (world net))) n
          (fst (delete_record client c net t k sk)))
   \<and> ((get_shard_for_key c (compose (kv_key d) (kv_sort_key d)) :: 'v coord_error + string \<times> string)
         = Inr (n', u') \<longrightarrow>
        surfaces {200}
          (fst (client (PUT (u' @ ''/update'') (payload_of d (compose (kv_key d) (kv_sort_key d))))
                  (world net))) n'
          (fst (update_record client c net d)))"
  by (intro conjI impI one_call_create one_call_read one_call_exists one_call_update one_call_delete
        surfaces_read surfaces_delete surfaces_update)

theorem one_client_call_status_surfaced_by_read_update_delete_witness:
  "(get_shard_for_key demo_coordinator (compose ''u2'' (Some ''o5'')) :: nat coord_error + string \<times> string)
     = Inr (''s1'', ''http://s1:8000'')
   \<and> fst (read_record (answering (error_response (HTTPException 404 ''Key not found'')))
            demo_coordinator demo_network ''orders'' ''u2'' (Some ''o5''))
     = Inl (CoordHTTPException 404 (RespText (Json (Detail ''Key not found''))))"
proof -
  have r: "(get_shard_for_key demo_coordinator (compose ''u2'' (Some ''o5'')) :: nat coord_error + string \<times> string)
     = Inr (''s1'', ''http://s1:8000'')"
    by (rule demo_route_any)
  note t = one_client_call_status_surfaced_by_read_update_delete
    [where client = "answering (error_response (HTTPException 404 ''Key not found'')) :: (nat, unit) client"
       and c = demo_coordinator and net = demo_network and k = "''u2''" and sk = "Some ''o5''"
       and t = "''orders''" and n = "''s1''" and u = "''http://s1:8000''"]
  from t r have "surfaces {200}
      (fst ((answering (error_response (HTTPException 404 ''Key not found'')) :: (nat, unit) client)
              (GET (''http://s1:8000'' @ ''/read/'' @ ''orders'' @ ''/'' @ ''u2'') (Some ''o5''))
              (world demo_network))) ''s1''
      (fst (read_record (answering (error_response (HTTPException 404 ''Key not found'')))
              demo_coordinator demo_network ''orders'' ''u2'' (Some ''o5'')))"
    by blast
  then have "fst (read_record (answering (error_response (HTTPException 404 ''Key not found'')))
            demo_coordinator demo_network ''orders'' ''u2'' (Some ''o5''))
     = Inl (CoordHTTPException 404 (RespText (Json (Detail ''Key not found''))))"
    by (simp add: surfaces_def answering_def error_response_def)
  with r show ?thesis by (intro conjI)
qed

subsection \<open>One rule for the composite key\<close>

text \<open>
  Claim C1 as stated fails in the single-process application: after a create with key
  \<open>u1\<close> and sort key \<open>o5\<close>, an update or a read addressed by the key \<open>u1\<close> does not
  find the record, because these handlers use the path key as the storage key as it is.
\<close>

theorem app_update_uses_path_key_counterexample:
  "app_create_record [''orders'' \<mapsto> Map.empty] ''orders''
      \<lparr>rec_key = ''u1'', rec_sort_key = Some ''o5'', rec_value = (10::nat)\<rparr>
     = (Inr (RecordCreated ''u1:o5''), [''orders'' \<mapsto> [''u1:o5'' \<mapsto> 10]])
   \<and> app_update_record [''orders'' \<mapsto> [''u1:o5'' \<mapsto> 10]] ''orders'' ''u1''
      \<lparr>rec_key = ''u1'', rec_sort_key = Some ''o5'', rec_value = (11::nat)\<rparr>
     = (Inl (HTTPException 404 ''Record not found''), [''orders'' \<mapsto> [''u1:o5'' \<mapsto> 10]])
   \<and> app_read_record [''orders'' \<mapsto> [''u1:o5'' \<mapsto> (10::nat)]] ''orders'' ''u1''
     = (Inl (HTTPException 404 ''Record not found''), [''orders'' \<mapsto> [''u1:o5'' \<mapsto> 10]])"
  by (simp add: app_create_record_compose compose_def app_update_record_def app_read_record_def)

text \<open>
  Claim C1, amended. In the coordinator and in the shard node each of create, read,
  exists, update and delete computes its key by the one rule. The coordinator
  resolves the shard for that key, and the one request it hands to the client carries
  the key and the sort key it received: in the payload for create and update, from
  which the shard's framework recovers the same table, key and sort key, and for read,
  exists and delete the key written into the URL path as it is and the sort key as the
  query parameter. The shard handlers look up and store under the key the rule gives
  for the key and sort key they receive. In the single-process application create
  applies the rule, and read, update and delete look up and store under the key of the
  path as it is; update takes nothing but the value from the body.
\<close>

theorem composite_key_rule_in_coordinator_and_shard:
  fixes client :: "('v, 'w) client"
  shows
    "one_call client c net (compose (kv_key d) (kv_sort_key d))
       (\<lambda>u. POST (u @ ''/create'') (payload_of d (compose (kv_key d) (kv_sort_key d))))
       (create_record client c net d)
   \<and> one_call client c net (compose k sk) (\<lambda>u. GET (u @ ''/read/'' @ t @ ''/'' @ k) sk)
       (read_record client c net t k sk)
   \<and> one_call client c net (compose k sk) (\<lambda>u. GET (u @ ''/exists/'' @ t @ ''/'' @ k) sk)
       (exists_record client c net t k sk)
   \<and> one_call client c net (compose (kv_key d) (kv_sort_key d))
       (\<lambda>u. PUT (u @ ''/update'') (payload_of d (compose (kv_key d) (kv_sort_key d))))
       (update_record client c net d)
   \<and> one_call client c net (compose k sk) (\<lambda>u. DELETE (u @ ''/delete/'' @ t @ ''/'' @ k) sk)
       (delete_record client c net t k sk)
   \<and> parse_body (payload_of d ck) =
       (case kv_value d of
          None \<Rightarrow> Inl RequestValidationError
        | Some v \<Rightarrow> Inr \<lparr>skv_table = kv_table d, skv_key = kv_key d,
                          skv_sort_key = kv_sort_key d, skv_value = v\<rparr>)
   \<and> shard_create STORAGE sd =
       (Inr (Created (skv_table sd) (compose (skv_key sd) (skv_sort_key sd))),
        STORAGE(skv_table sd \<mapsto>
          (case STORAGE (skv_table sd) of None \<Rightarrow> Map.empty | Some m \<Rightarrow> m)
            (compose (skv_key sd) (skv_sort_key sd) \<mapsto> skv_value sd)))
   \<and> shard_read STORAGE t k sk =
       (case STORAGE t of
          None \<Rightarrow> (Inl (HTTPException 404 ''Table not found''), STORAGE)
        | Some tbl \<Rightarrow>
            (case tbl (compose k sk) of
               None \<Rightarrow> (Inl (HTTPException 404 ''Key not found''), STORAGE)
             | Some v \<Rightarrow> (Inr (ReadOk (compose k sk) v), STORAGE)))
   \<and> shard_exists STORAGE t k sk =
       (case STORAGE t of
          None \<Rightarrow> (Inr (Exists False), STORAGE)
        | Some tbl \<Rightarrow> (Inr (Exists (tbl (compose k sk) \<noteq> None)), STORAGE))
   \<and> shard_update STORAGE sd =
       (case STORAGE (skv_table sd) of
          None \<Rightarrow> (Inl (HTTPException 404 ''Table not found''), STORAGE)
        | Some tbl \<Rightarrow>
            (if tbl (compose (skv_key sd) (skv_sort_key sd)) = None
             then (Inl (HTTPException 404 ''Key not found for update''), STORAGE)
             else (Inr (Updated (skv_table sd) (compose (skv_key sd) (skv_sort_key sd)) (skv_value sd)),
                   STORAGE(skv_table sd \<mapsto> tbl(compose (skv_key sd) (skv_sort_key sd) \<mapsto> skv_value sd)))))
   \<and> shard_delete STORAGE t k sk =
       (case STORAGE t of
          None \<Rightarrow> (Inl (HTTPException 404 ''Table not found''), STORAGE)
        | Some tbl \<Rightarrow>
            (if tbl (compose k sk) = None
             then (Inl (HTTPException 404 ''Key not found''), STORAGE)
             else (Inr (Deleted (compose k sk)), STORAGE(t \<mapsto> tbl(compose k sk := None)))))
   \<and> app_create_record T t rec =
       (case T t of
          None \<Rightarrow> (Inl (HTTPException 404 ''Table not found''), T)
        | Some table \<Rightarrow>
            (if table (compose (rec_key rec) (rec_sort_key rec)) \<noteq> None
             then (Inl (HTTPException 400 ''Record already exists''), T)
             else (Inr (RecordCreated (compose (rec_key rec) (rec_sort_key rec))),
                   T(t \<mapsto> table(compose (rec_key rec) (rec_sort_key rec) \<mapsto> rec_value rec)))))
   \<and> app_read_record T t k =
       (case T t of
          None \<Rightarrow> (Inl (HTTPException 404 ''Table not found''), T)
        | Some table \<Rightarrow>
            (case table k of
               None \<Rightarrow> (Inl (HTTPException 404 ''Record not found''), T)
             | Some v \<Rightarrow> (Inr (RecordRead k v), T)))
   \<and> app_update_record T t k rec =
       (case T t of
          None \<Rightarrow> (Inl (HTTPException 404 ''Table not found''), T)
        | Some table \<Rightarrow>
            (if table k = None
             then (Inl (HTTPException 404 ''Record not found''), T)
             else (Inr (RecordUpdated k), T(t \<mapsto> table(k \<mapsto> rec_value rec)))))
   \<and> app_delete_record T t k =
       (case T t of
          None \<Rightarrow> (Inl (HTTPException 404 ''Table not found''), T)
        | Some table \<Rightarrow>
            (if table k = None
             then (Inl (HTTPException 404 ''Record not found''), T)
             else (Inr (RecordDeleted k), T(t \<mapsto> table(k := None)))))"
  by (intro conjI one_call_create one_call_read one_call_exists one_call_update one_call_delete
        parse_body_payload shard_create_compose shard_read_compose shard_exists_compose
        shard_update_compose shard_delete_compose app_create_record_compose
        app_read_record_def app_update_record_def app_delete_record_def)

theorem composite_key_rule_in_coordinator_and_shard_witness:
  "shard_read [''orders'' \<mapsto> [''u1:o5'' \<mapsto> (10::nat)]] ''orders'' ''u1'' (Some ''o5'')
     = (Inr (ReadOk ''u1:o5'' 10), [''orders'' \<mapsto> [''u1:o5'' \<mapsto> 10]])
   \<and> parse_body (payload_of demo_order ''u1:o5'')
     = Inr \<lparr>skv_table = ''orders'', skv_key = ''u1'', skv_sort_key = Some ''o5'', skv_value = 10\<rparr>"
proof -
  note t = composite_key_rule_in_coordinator_and_shard
    [where client = "refusing :: (nat, unit) client" and c = demo_coordinator and net = demo_network
       and d = demo_order and ck = "''u1:o5''" and t = "''orders''" and k = "''u1''"
       and sk = "Some ''o5''" and STORAGE = "[''orders'' \<mapsto> [''u1:o5'' \<mapsto> (10::nat)]]"]
  have a: "shard_read [''orders'' \<mapsto> [''u1:o5'' \<mapsto> (10::nat)]] ''orders'' ''u1'' (Some ''o5'')
     = (Inr (ReadOk ''u1:o5'' 10), [''orders'' \<mapsto> [''u1:o5'' \<mapsto> 10]])"
    using t [THEN conjunct2, THEN conjunct2, THEN conjunct2, THEN conjunct2, THEN conjunct2,
             THEN conjunct2, THEN conjunct2, THEN conjunct1]
    by (simp add: compose_def)
  have b: "parse_body (payload_of demo_order ''u1:o5'')
     = Inr \<lparr>skv_table = ''orders'', skv_key = ''u1'', skv_sort_key = Some ''o5'', skv_value = 10\<rparr>"
    using t [THEN conjunct2, THEN conjunct2, THEN conjunct2, THEN conjunct2, THEN conjunct2,
             THEN conjunct1]
    by (simp add: demo_order_def)
  from a b show ?thesis by (intro conjI)
qed

subsection \<open>The table catalog\<close>

text \<open>
  Claim C3 as stated fails: the coordinator serves a table that was never registered.
  With an empty table catalog, a create for the table \<open>orders\<close> is handed to the
  client, and the shard, which creates a table it does not know, answers \<open>Created\<close>;
  the coordinator returns that answer. A read of the record is handed to the client
  as well, and the shard's answer with the value is returned.
\<close>

theorem unregistered_table_served_counterexample:
  "TABLES demo_coordinator = []
   \<and> create_record (answering (json_response (Created ''orders'' ''u1:o5''))) demo_coordinator
        demo_network demo_order
     = (Inr \<lparr>target_shard = ''s1'', response = Body (Created ''orders'' ''u1:o5'')\<rparr>,
        \<lparr>world = (), calls = [POST ''http://s1:8000/create'' (payload_of demo_order ''u1:o5'')]\<rparr>)
   \<and> parse_body (payload_of demo_order ''u1:o5'')
     = Inr \<lparr>skv_table = ''orders'', skv_key = ''u1'', skv_sort_key = Some ''o5'', skv_value = 10\<rparr>
   \<and> shard_create Map.empty
        \<lparr>skv_table = ''orders'', skv_key = ''u1'', skv_sort_key = Some ''o5'', skv_value = (10::nat)\<rparr>
     = (Inr (Created ''orders'' ''u1:o5''), [''orders'' \<mapsto> [''u1:o5'' \<mapsto> 10]])
   \<and> read_record (answering (json_response (ReadOk ''u1:o5'' 10))) demo_coordinator
        demo_network ''orders'' ''u1'' (Some ''o5'')
     = (Inr \<lparr>target_shard = ''s1'', response = Body (ReadOk ''u1:o5'' 10)\<rparr>,
        \<lparr>world = (), calls = [GET ''http://s1:8000/read/orders/u1'' (Some ''o5'')]\<rparr>)
   \<and> shard_read [''orders'' \<mapsto> [''u1:o5'' \<mapsto> (10::nat)]] ''orders'' ''u1'' (Some ''o5'')
     = (Inr (ReadOk ''u1:o5'' 10), [''orders'' \<mapsto> [''u1:o5'' \<mapsto> 10]])"
proof (intro conjI)
  show "TABLES demo_coordinator = []"
    by (rule demo_tables)
  show "create_record (answering (json_response (Created ''orders'' ''u1:o5''))) demo_coordinator
        demo_network demo_order
     = (Inr \<lparr>target_shard = ''s1'', response = Body (Created ''orders'' ''u1:o5'')\<rparr>,
        \<lparr>world = (), calls = [POST ''http://s1:8000/create'' (payload_of demo_order ''u1:o5'')]\<rparr>)"
    unfolding create_record_compose demo_route_any answering_call
    by (simp add: demo_order_def compose_def json_response_def resp_json_def demo_network_def)
  show "parse_body (payload_of demo_order ''u1:o5'')
     = Inr \<lparr>skv_table = ''orders'', skv_key = ''u1'', skv_sort_key = Some ''o5'', skv_value = 10\<rparr>"
    by (simp add: parse_body_def payload_of_def demo_order_def)
  show "shard_create Map.empty
        \<lparr>skv_table = ''orders'', skv_key = ''u1'', skv_sort_key = Some ''o5'', skv_value = (10::nat)\<rparr>
     = (Inr (Created ''orders'' ''u1:o5''), [''orders'' \<mapsto> [''u1:o5'' \<mapsto> 10]])"
    by (simp add: shard_create_compose compose_def)
  show "read_record (answering (json_response (ReadOk ''u1:o5'' 10))) demo_coordinator
        demo_network ''orders'' ''u1'' (Some ''o5'')
     = (Inr \<lparr>target_shard = ''s1'', response = Body (ReadOk ''u1:o5'' 10)\<rparr>,
        \<lparr>world = (), calls = [GET ''http://s1:8000/read/orders/u1'' (Some ''o5'')]\<rparr>)"
    unfolding read_record_compose demo_route_any answering_call
    by (simp add: json_response_def resp_json_def demo_network_def)
  show "shard_read [''orders'' \<mapsto> [''u1:o5'' \<mapsto> (10::nat)]] ''orders'' ''u1'' (Some ''o5'')
     = (Inr (ReadOk ''u1:o5'' 10), [''orders'' \<mapsto> [''u1:o5'' \<mapsto> 10]])"
    by (simp add: shard_read_compose compose_def)
qed

text \<open>
  Claim C3, amended. The coordinator's create, read, exists, update and delete do not
  consult its table catalog: whatever \<open>TABLES\<close> holds, they compose the key, resolve the
  shard and hand the one request to the client, with the same result. Whether a table is known is decided by the shard
  alone: on a shard that has no storage for the table, read, update and delete answer
  404 "Table not found" and leave the storage as it was, exists answers false, and
  create creates the table, holding the one record, and answers \<open>Created\<close>. When the
  resolved shard's answer to read, update or delete is that 404, the coordinator raises
  it again with status 404 and the shard's response text.
\<close>

theorem crud_does_not_consult_table_catalog:
  fixes client :: "('v, 'w) client"
  shows
    "create_record client (c\<lparr>TABLES := ts\<rparr>) net d = create_record client c net d
   \<and> read_record client (c\<lparr>TABLES := ts\<rparr>) net t k sk = read_record client c net t k sk
   \<and> exists_record client (c\<lparr>TABLES := ts\<rparr>) net t k sk = exists_record client c net t k sk
   \<and> update_record client (c\<lparr>TABLES := ts\<rparr>) net d = update_record client c net d
   \<and> delete_record client (c\<lparr>TABLES := ts\<rparr>) net t k sk = delete_record client c net t k sk
   \<and> one_call client c net (compose (kv_key d) (kv_sort_key d))
       (\<lambda>u. POST (u @ ''/create'') (payload_of d (compose (kv_key d) (kv_sort_key d))))
       (create_record client c net d)
   \<and> one_call client c net (compose k sk) (\<lambda>u. GET (u @ ''/read/'' @ t @ ''/'' @ k) sk)
       (read_record client c net t k sk)
   \<and> one_call client c net (compose k sk) (\<lambda>u. GET (u @ ''/exists/'' @ t @ ''/'' @ k) sk)
       (exists_record client c net t k sk)
   \<and> one_call client c net (compose (kv_key d) (kv_sort_key d))
       (\<lambda>u. PUT (u @ ''/update'') (payload_of d (compose (kv_key d) (kv_sort_key d))))
       (update_record client c net d)
   \<and> one_call client c net (compose k sk) (\<lambda>u. DELETE (u @ ''/delete/'' @ t @ ''/'' @ k) sk)
       (delete_record client c net t k sk)
   \<and> (S t = None \<longrightarrow>
        shard_read S t k sk = (Inl (HTTPException 404 ''Table not found''), S)
        \<and> shard_update S \<lparr>skv_table = t, skv_key = k, skv_sort_key = sk, skv_value = v\<rparr>
            = (Inl (HTTPException 404 ''Table not found''), S)
        \<and> shard_delete S t k sk = (Inl (HTTPException 404 ''Table not found''), S)
        \<and> shard_exists S t k sk = (Inr (Exists False), S)
        \<and> shard_create S \<lparr>skv_table = t, skv_key = k, skv_sort_key = sk, skv_value = v\<rparr>
            = (Inr (Created t (compose k sk)), S(t \<mapsto> [compose k sk \<mapsto> v])))
   \<and> ((get_shard_for_key c (compose k sk) :: 'v coord_error + string \<times> string) = Inr (n, u) \<longrightarrow>
        (fst (client (GET (u @ ''/read/'' @ t @ ''/'' @ k) sk) (world net))
           = Inr (error_response (HTTPException 404 ''Table not found'')) \<longrightarrow>
         fst (read_record client c net t k sk)
           = Inl (CoordHTTPException 404 (RespText (Json (Detail ''Table not found'')))))
        \<and> (fst (client (DELETE (u @ ''/delete/'' @ t @ ''/'' @ k) sk) (world net))
           = Inr (error_response (HTTPException 404 ''Table not found'')) \<longrightarrow>
         fst (delete_record client c net t k sk)
           = Inl (CoordHTTPException 404 (RespText (Json (Detail ''Table not found''))))))
   \<and> ((get_shard_for_key c (compose (kv_key d) (kv_sort_key d)) :: 'v coord_error + string \<times> string)
         = Inr (n', u') \<longrightarrow>
        fst (client (PUT (u' @ ''/update'') (payload_of d (compose (kv_key d) (kv_sort_key d))))
               (world net))
           = Inr (error_response (HTTPException 404 ''Table not found'')) \<longrightarrow>
        fst (update_record client c net d)
           = Inl (CoordHTTPException 404 (RespText (Json (Detail ''Table not found'')))))"
proof (intro conjI impI crud_tables one_call_create one_call_read one_call_exists one_call_update
    one_call_delete)
  assume s: "S t = None"
  then show "shard_read S t k sk = (Inl (HTTPException 404 ''Table not found''), S)"
    by (simp add: shard_read_compose)
  from s show "shard_update S \<lparr>skv_table = t, skv_key = k, skv_sort_key = sk, skv_value = v\<rparr>
            = (Inl (HTTPException 404 ''Table not found''), S)"
    by (simp add: shard_update_compose)
  from s show "shard_delete S t k sk = (Inl (HTTPException 404 ''Table not found''), S)"
    by (simp add: shard_delete_compose)
  from s show "shard_exists S t k sk = (Inr (Exists False), S)"
    by (simp add: shard_exists_compose)
  from s show "shard_create S \<lparr>skv_table = t, skv_key = k, skv_sort_key = sk, skv_value = v\<rparr>
            = (Inr (Created t (compose k sk)), S(t \<mapsto> [compose k sk \<mapsto> v]))"
    by (simp add: shard_create_compose)
next
  assume r: "(get_shard_for_key c (compose k sk) :: 'v coord_error + string \<times> string) = Inr (n, u)"
    and a: "fst (client (GET (u @ ''/read/'' @ t @ ''/'' @ k) sk) (world net))
           = Inr (error_response (HTTPException 404 ''Table not found''))"
  from surfaces_read [OF r, of client t net] show "fst (read_record client c net t k sk)
           = Inl (CoordHTTPException 404 (RespText (Json (Detail ''Table not found''))))"
    unfolding a by (simp add: surfaces_def error_response_def)
next
  assume r: "(get_shard_for_key c (compose k sk) :: 'v coord_error + string \<times> string) = Inr (n, u)"
    and a: "fst (client (DELETE (u @ ''/delete/'' @ t @ ''/'' @ k) sk) (world net))
           = Inr (error_response (HTTPException 404 ''Table not found''))"
  from surfaces_delete [OF r, of client t net] show "fst (delete_record client c net t k sk)
           = Inl (CoordHTTPException 404 (RespText (Json (Detail ''Table not found''))))"
    unfolding a by (simp add: surfaces_def error_response_def)
next
  assume r: "(get_shard_for_key c (compose (kv_key d) (kv_sort_key d)) :: 'v coord_error + string \<times> string)
         = Inr (n', u')"
    and a: "fst (client (PUT (u' @ ''/update'') (payload_of d (compose (kv_key d) (kv_sort_key d))))
               (world net))
           = Inr (error_response (HTTPException 404 ''Table not found''))"
  from surfaces_update [OF r, of client net] show "fst (update_record client c net d)
           = Inl (CoordHTTPException 404 (RespText (Json (Detail ''Table not found''))))"
    unfolding a by (simp add: surfaces_def error_response_def)
qed

theorem crud_does_not_consult_table_catalog_witness:
  "(Map.empty :: nat storage) ''orders'' = None
   \<and> shard_read (Map.empty :: nat storage) ''orders'' ''u1'' (Some ''o5'')
       = (Inl (HTTPException 404 ''Table not found''), Map.empty)
   \<and> shard_create Map.empty
        \<lparr>skv_table = ''orders'', skv_key = ''u1'', skv_sort_key = Some ''o5'', skv_value = (10::nat)\<rparr>
       = (Inr (Created ''orders'' ''u1:o5''), [''orders'' \<mapsto> [''u1:o5'' \<mapsto> 10]])
   \<and> (get_shard_for_key demo_coordinator (compose ''u1'' (Some ''o5'')) :: nat coord_error + string \<times> string)
       = Inr (''s1'', ''http://s1:8000'')
   \<and> fst ((answering (error_response (HTTPException 404 ''Table not found'')) :: (nat, unit) client)
            (GET (''http://s1:8000'' @ ''/read/'' @ ''orders'' @ ''/'' @ ''u1'') (Some ''o5''))
            (world demo_network))
       = Inr (error_response (HTTPException 404 ''Table not found''))
   \<and> fst (read_record (answering (error_response (HTTPException 404 ''Table not found'')))
            demo_coordinator demo_network ''orders'' ''u1'' (Some ''o5''))
       = Inl (CoordHTTPException 404 (RespText (Json (Detail ''Table not found''))))"
proof -
  have e: "(Map.empty :: nat storage) ''orders'' = None"
    by simp
  have r: "(get_shard_for_key demo_coordinator (compose ''u1'' (Some ''o5'')) :: nat coord_error + string \<times> string)
       = Inr (''s1'', ''http://s1:8000'')"
    by (rule demo_route_any)
  have a: "fst ((answering (error_response (HTTPException 404 ''Table not found'')) :: (nat, unit) client)
            (GET (''http://s1:8000'' @ ''/read/'' @ ''orders'' @ ''/'' @ ''u1'') (Some ''o5''))
            (world demo_network))
       = Inr (error_response (HTTPException 404 ''Table not found''))"
    by (simp add: answering_def)
  note t = crud_does_not_consult_table_catalog
    [where client = "answering (error_response (HTTPException 404 ''Table not found'')) :: (nat, unit) client"
       and c = demo_coordinator and net = demo_network and k = "''u1''" and sk = "Some ''o5''"
       and t = "''orders''" and n = "''s1''" and u = "''http://s1:8000''"
       and S = "Map.empty :: nat storage" and v = 10]
  from t e have s1: "shard_read (Map.empty :: nat storage) ''orders'' ''u1'' (Some ''o5'')
       = (Inl (HTTPException 404 ''Table not found''), Map.empty)"
    by blast
  from t e have "shard_create (Map.empty :: nat storage)
        \<lparr>skv_table = ''orders'', skv_key = ''u1'', skv_sort_key = Some ''o5'', skv_value = (10::nat)\<rparr>
       = (Inr (Created ''orders'' (compose ''u1'' (Some ''o5''))),
          Map.empty(''orders'' \<mapsto> [compose ''u1'' (Some ''o5'') \<mapsto> 10]))"
    by blast
  then have s2: "shard_create Map.empty
        \<lparr>skv_table = ''orders'', skv_key = ''u1'', skv_sort_key = Some ''o5'', skv_value = (10::nat)\<rparr>
       = (Inr (Created ''orders'' ''u1:o5''), [''orders'' \<mapsto> [''u1:o5'' \<mapsto> 10]])"
    by (simp add: compose_def)
  from t r a have s3: "fst (read_record (answering (error_response (HTTPException 404 ''Table not found'')))
            demo_coordinator demo_network ''orders'' ''u1'' (Some ''o5''))
       = Inl (CoordHTTPException 404 (RespText (Json (Detail ''Table not found''))))"
    by blast
  from e s1 s2 r a s3 show ?thesis by (intro conjI)
qed

end
